theory Spec2Isabelle
  imports Complex_Main "HOL-Library.Sublist"
begin

section \<open>JavaScript strings\<close>

text \<open>
  The script \<^verbatim>\<open>update-collection-basic.js\<close> exists in three revisions: the file of that
  name (an unordered list, marked \<open>_basic\<close> below where it differs), the revision with
  currency symbols and striped table rows (unmarked) and the revision with the bordered
  card, the title line and the product count line (marked \<open>_card\<close>). Functions that are
  the same in all three are modelled once.

  A JavaScript string is modelled as a \<^typ>\<open>string\<close> holding its UTF-8 bytes. All characters
  the script itself inspects are ASCII, except the white space that \<^verbatim>\<open>trim\<close> and
  \<^verbatim>\<open>Number\<close> skip, which is listed below byte sequence by byte sequence.
\<close>

definition replaceAll :: "char \<Rightarrow> string \<Rightarrow> string \<Rightarrow> string" where
  \<comment> \<open>\<^verbatim>\<open>s.replace(/c/g, r)\<close> for a single character \<open>c\<close>\<close>
  "replaceAll c r s = concat (map (\<lambda>x. if x = c then r else [x]) s)"

fun join :: "string \<Rightarrow> string list \<Rightarrow> string" where
  "join sep [] = []"
| "join sep [x] = x"
| "join sep (x # y # ys) = x @ sep @ join sep (y # ys)"

definition StrWhiteSpaceChar :: "string list" where
  \<comment> \<open>WhiteSpace and LineTerminator of ECMAScript: TAB, LF, VT, FF, CR, SP, U+00A0, U+1680,
      U+2000..U+200A, U+2028, U+2029, U+202F, U+205F, U+3000, U+FEFF\<close>
  "StrWhiteSpaceChar =
     [[CHR 0x09], [CHR 0x0A], [CHR 0x0B], [CHR 0x0C], [CHR 0x0D], [CHR 0x20],
      [CHR 0xC2, CHR 0xA0], [CHR 0xE1, CHR 0x9A, CHR 0x80],
      [CHR 0xE2, CHR 0x80, CHR 0x80], [CHR 0xE2, CHR 0x80, CHR 0x81],
      [CHR 0xE2, CHR 0x80, CHR 0x82], [CHR 0xE2, CHR 0x80, CHR 0x83],
      [CHR 0xE2, CHR 0x80, CHR 0x84], [CHR 0xE2, CHR 0x80, CHR 0x85],
      [CHR 0xE2, CHR 0x80, CHR 0x86], [CHR 0xE2, CHR 0x80, CHR 0x87],
      [CHR 0xE2, CHR 0x80, CHR 0x88], [CHR 0xE2, CHR 0x80, CHR 0x89],
      [CHR 0xE2, CHR 0x80, CHR 0x8A], [CHR 0xE2, CHR 0x80, CHR 0xA8],
      [CHR 0xE2, CHR 0x80, CHR 0xA9], [CHR 0xE2, CHR 0x80, CHR 0xAF],
      [CHR 0xE2, CHR 0x81, CHR 0x9F], [CHR 0xE3, CHR 0x80, CHR 0x80],
      [CHR 0xEF, CHR 0xBB, CHR 0xBF]]"

function stripLeading :: "string list \<Rightarrow> string \<Rightarrow> string" where
  "stripLeading ws s =
     (case List.find (\<lambda>w. w \<noteq> [] \<and> prefix w s) ws of
        Some w \<Rightarrow> stripLeading ws (drop (length w) s)
      | None \<Rightarrow> s)"
  by pat_completeness auto
termination
proof (relation "measure (\<lambda>(ws, s). length s)")
  show "wf (measure (\<lambda>(ws, s). length s))" by simp
next
  fix ws :: "string list" and s w :: string
  assume "List.find (\<lambda>w. w \<noteq> [] \<and> prefix w s) ws = Some w"
  then have "w \<noteq> []" and "prefix w s"
    by (auto simp: find_Some_iff)
  then have "s \<noteq> []" by auto
  with \<open>w \<noteq> []\<close> show "((ws, drop (length w) s), (ws, s)) \<in> measure (\<lambda>(ws, s). length s)"
    by simp
qed

declare stripLeading.simps [simp del]

definition trimStart :: "string \<Rightarrow> string" where
  "trimStart s = stripLeading StrWhiteSpaceChar s"

definition trimEnd :: "string \<Rightarrow> string" where
  "trimEnd s = rev (stripLeading (map rev StrWhiteSpaceChar) (rev s))"

definition trim :: "string \<Rightarrow> string" where
  "trim s = trimEnd (trimStart s)"

definition utf8Length :: "char \<Rightarrow> nat" where
  \<comment> \<open>the number of bytes of the UTF-8 sequence that starts with this byte\<close>
  "utf8Length c =
     (if (of_char c :: nat) < 128 then 1 else if (of_char c :: nat) < 224 then 2
      else if (of_char c :: nat) < 240 then 3 else 4)"

definition asciiBlank :: "char \<Rightarrow> bool" where
  \<comment> \<open>the white space of the template literals: spaces and line feeds\<close>
  "asciiBlank c = (c = CHR '' '' \<or> c = CHR ''\<newline>'')"

function decimalDigits :: "int \<Rightarrow> string" where
  \<comment> \<open>the decimal digits of an integer that is not negative\<close>
  "decimalDigits n =
     (if n < 10 then [char_of (48 + n)]
      else decimalDigits (n div 10) @ [char_of (48 + n mod 10)])"
  by pat_completeness auto
termination
  by (relation "measure nat") auto

declare decimalDigits.simps [simp del]

definition intToString :: "int \<Rightarrow> string" where
  \<comment> \<open>an integer in a template literal\<close>
  "intToString i = (if i < 0 then ''-'' @ decimalDigits (- i) else decimalDigits i)"

definition natToString :: "nat \<Rightarrow> string" where
  "natToString n = decimalDigits (int n)"

section \<open>HTML escaping\<close>

text \<open>
  \<^verbatim>\<open>String(s ?? "")\<close> followed by four global replacements, in the order of the source.
  The argument is \<open>None\<close> for \<^verbatim>\<open>null\<close> and \<^verbatim>\<open>undefined\<close>.
\<close>

definition esc :: "string option \<Rightarrow> string" where
  \<open>esc s =
     replaceAll (CHR 0x22) ''&quot;''
       (replaceAll CHR ''>'' ''&gt;''
         (replaceAll CHR ''<'' ''&lt;''
           (replaceAll CHR ''&'' ''&amp;'' (case s of None \<Rightarrow> [] | Some v \<Rightarrow> v))))\<close>

definition esc_basic :: "string option \<Rightarrow> string" where
  \<open>esc_basic s =
     replaceAll CHR ''>'' ''&gt;''
       (replaceAll CHR ''<'' ''&lt;''
         (replaceAll CHR ''&'' ''&amp;'' (case s of None \<Rightarrow> [] | Some v \<Rightarrow> v)))\<close>

text \<open>The replacement in the words of the specification, one character at a time.\<close>

definition escChar :: "char \<Rightarrow> string" where
  \<open>escChar c =
     (if c = CHR ''&'' then ''&amp;'' else if c = CHR ''<'' then ''&lt;''
      else if c = CHR ''>'' then ''&gt;'' else if c = CHR 0x22 then ''&quot;'' else [c])\<close>

section \<open>Dates and the collection handle\<close>

text \<open>
  A \<^verbatim>\<open>Date\<close> is its time value: milliseconds since 1970-01-01 UTC, or \<open>None\<close> for an
  invalid date (a time value of NaN). The functions below are the abstract operations of
  ECMAScript that the \<^verbatim>\<open>getUTC...\<close>, \<^verbatim>\<open>setUTCDate\<close> and \<^verbatim>\<open>Date.UTC\<close> calls of the script resolve
  to, on the proleptic Gregorian calendar.
\<close>

definition msPerDay :: int where
  "msPerDay = 86400000"

definition Day :: "int \<Rightarrow> int" where
  "Day t = t div msPerDay"

definition TimeWithinDay :: "int \<Rightarrow> int" where
  "TimeWithinDay t = t mod msPerDay"

definition DaysInYear :: "int \<Rightarrow> int" where
  "DaysInYear y =
     (if y mod 4 \<noteq> 0 then 365 else if y mod 100 \<noteq> 0 then 366
      else if y mod 400 \<noteq> 0 then 365 else 366)"

definition DayFromYear :: "int \<Rightarrow> int" where
  "DayFromYear y =
     365 * (y - 1970) + (y - 1969) div 4 - (y - 1901) div 100 + (y - 1601) div 400"

text \<open>Each year starts \<open>DaysInYear\<close> days after the one before.\<close>

lemma div_step:
  fixes n k :: int
  assumes k: "0 < k"
  shows "(n + 1) div k = n div k + (if (n + 1) mod k = 0 then 1 else 0)"
proof (cases "(n + 1) mod k = 0")
  case True
  define q where "q = (n + 1) div k"
  have "n + 1 = k * q" using True by (simp add: q_def mod_eq_0_iff_dvd)
  then have "n = k * (q - 1) + (k - 1)" by (simp add: algebra_simps)
  then have "n div k = q - 1" using k int_div_pos_eq [of n k "q - 1" "k - 1"] by simp
  with True show ?thesis by (simp add: q_def)
next
  case False
  define q where "q = (n + 1) div k"
  define r where "r = (n + 1) mod k"
  have "0 \<le> r" "r < k" using k by (simp_all add: r_def)
  with False have "1 \<le> r" by (simp add: r_def)
  have "n + 1 = k * q + r" by (simp add: q_def r_def)
  then have "n = k * q + (r - 1)" by simp
  then have "n div k = q" using \<open>1 \<le> r\<close> \<open>r < k\<close> int_div_pos_eq [of n k q "r - 1"] by simp
  with False show ?thesis by (simp add: q_def)
qed

lemma step4: "(y - 1968) div 4 = (y - 1969) div 4 + (if y mod 4 = 0 then 1 else 0)" for y :: int
proof -
  have "(y - 1968) mod 4 = y mod 4" using mod_mult_self1 [of y "- 492" 4] by simp
  then show ?thesis using div_step [of 4 "y - 1969"] by simp
qed

lemma step100: "(y - 1900) div 100 = (y - 1901) div 100 + (if y mod 100 = 0 then 1 else 0)" for y :: int
proof -
  have "(y - 1900) mod 100 = y mod 100" using mod_mult_self1 [of y "- 19" 100] by simp
  then show ?thesis using div_step [of 100 "y - 1901"] by simp
qed

lemma step400: "(y - 1600) div 400 = (y - 1601) div 400 + (if y mod 400 = 0 then 1 else 0)" for y :: int
proof -
  have "(y - 1600) mod 400 = y mod 400" using mod_mult_self1 [of y "- 4" 400] by simp
  then show ?thesis using div_step [of 400 "y - 1601"] by simp
qed


lemma DayFromYear_step: "DayFromYear (y + 1) = DayFromYear y + DaysInYear y"
proof -
  have a: "y mod 100 = 0 \<Longrightarrow> y mod 4 = 0"
  proof -
    assume "y mod 100 = 0"
    then have "100 dvd y" by (simp add: mod_eq_0_iff_dvd)
    moreover have "(4::int) dvd 100" by simp
    ultimately have "4 dvd y" by (rule dvd_trans [rotated])
    then show ?thesis by (simp add: mod_eq_0_iff_dvd)
  qed
  have b: "y mod 400 = 0 \<Longrightarrow> y mod 100 = 0"
  proof -
    assume "y mod 400 = 0"
    then have "400 dvd y" by (simp add: mod_eq_0_iff_dvd)
    moreover have "(100::int) dvd 400" by simp
    ultimately have "100 dvd y" by (rule dvd_trans [rotated])
    then show ?thesis by (simp add: mod_eq_0_iff_dvd)
  qed
  define a4 :: int where "a4 = (if y mod 4 = 0 then 1 else 0)"
  define a100 :: int where "a100 = (if y mod 100 = 0 then 1 else 0)"
  define a400 :: int where "a400 = (if y mod 400 = 0 then 1 else 0)"
  have e: "DayFromYear (y + 1) =
      365 * (y - 1969) + ((y - 1969) div 4 + a4) - ((y - 1901) div 100 + a100)
        + ((y - 1601) div 400 + a400)"
    by (simp add: DayFromYear_def step4 step100 step400 a4_def a100_def a400_def)
  have d: "DaysInYear y = 365 + a4 - a100 + a400"
  proof (cases "y mod 4 = 0")
    case False
    with a b have "y mod 100 \<noteq> 0" and "y mod 400 \<noteq> 0" by metis+
    with False show ?thesis
      by (simp only: DaysInYear_def a4_def a100_def a400_def if_True if_False refl not_False_eq_True)
  next
    case y4: True
    show ?thesis
    proof (cases "y mod 100 = 0")
      case False
      with b have "y mod 400 \<noteq> 0" by metis
      with y4 False show ?thesis
        by (simp only: DaysInYear_def a4_def a100_def a400_def if_True if_False refl not_False_eq_True not_True_eq_False)
    next
      case True
      with y4 show ?thesis
        by (cases "y mod 400 = 0")
          (simp_all only: DaysInYear_def a4_def a100_def a400_def if_True if_False refl not_False_eq_True not_True_eq_False)
    qed
  qed
  show ?thesis unfolding e d by (simp add: DayFromYear_def)
qed

lemma DaysInYear_cases: "DaysInYear y = 365 \<or> DaysInYear y = 366"
  by (simp add: DaysInYear_def)

lemma DayFromYear_less: "DayFromYear y < DayFromYear (y + 1)"
  using DaysInYear_cases [of y] by (auto simp: DayFromYear_step)

text \<open>
  \<^verbatim>\<open>YearFromTime(t)\<close> is the largest year that starts no later than \<open>t\<close>. The search for it
  starts at a year that is not too late (every year has at most 366 days and at least 365).
\<close>

function yearSearch :: "int \<Rightarrow> int \<Rightarrow> int" where
  "yearSearch d y = (if DayFromYear (y + 1) \<le> d then yearSearch d (y + 1) else y)"
  by pat_completeness auto
termination
proof (relation "measure (\<lambda>(d, y). nat (d + 1 - DayFromYear (y + 1)))")
  show "wf (measure (\<lambda>(d, y). nat (d + 1 - DayFromYear (y + 1))))" by simp
next
  fix d y :: int
  assume "DayFromYear (y + 1) \<le> d"
  moreover have "DayFromYear (y + 1) < DayFromYear (y + 1 + 1)"
    by (rule DayFromYear_less)
  ultimately show "((d, y + 1), (d, y)) \<in> measure (\<lambda>(d, y). nat (d + 1 - DayFromYear (y + 1)))"
    by simp
qed

declare yearSearch.simps [simp del]

definition YearFromDay :: "int \<Rightarrow> int" where
  "YearFromDay d = yearSearch d (1970 + (if 0 \<le> d then d div 366 else d div 365))"

definition YearFromTime :: "int \<Rightarrow> int" where
  "YearFromTime t = YearFromDay (Day t)"

definition InLeapYear :: "int \<Rightarrow> int" where
  "InLeapYear t = (if DaysInYear (YearFromTime t) = 366 then 1 else 0)"

definition DayWithinYear :: "int \<Rightarrow> int" where
  "DayWithinYear t = Day t - DayFromYear (YearFromTime t)"

definition monthStart :: "int \<Rightarrow> int \<Rightarrow> int" where
  \<comment> \<open>the day within the year on which month \<open>m\<close> (January is 0) starts; \<open>leap\<close> is 0 or 1\<close>
  "monthStart m leap =
     (if m \<le> 0 then 0 else if m = 1 then 31
      else [59, 90, 120, 151, 181, 212, 243, 273, 304, 334, 365] ! nat (min m 12 - 2) + leap)"

definition MonthFromTime :: "int \<Rightarrow> int" where
  "MonthFromTime t =
     (let d = DayWithinYear t; leap = InLeapYear t
      in int (length (filter (\<lambda>m. monthStart m leap \<le> d) [1, 2, 3, 4, 5, 6, 7, 8, 9, 10, 11])))"

definition DateFromTime :: "int \<Rightarrow> int" where
  "DateFromTime t = DayWithinYear t - monthStart (MonthFromTime t) (InLeapYear t) + 1"

definition WeekDay :: "int \<Rightarrow> int" where
  "WeekDay t = (Day t + 4) mod 7"

definition MakeDay :: "int \<Rightarrow> int \<Rightarrow> int \<Rightarrow> int" where
  "MakeDay year month date =
     (let ym = year + month div 12; mn = month mod 12
      in DayFromYear ym + monthStart mn (if DaysInYear ym = 366 then 1 else 0) + date - 1)"

definition MakeDate :: "int \<Rightarrow> int \<Rightarrow> int" where
  "MakeDate day time = day * msPerDay + time"

definition TimeClip :: "int \<Rightarrow> int option" where
  "TimeClip t = (if \<bar>t\<bar> \<le> 8640000000000000 then Some t else None)"

definition Date_UTC :: "int \<Rightarrow> int \<Rightarrow> int \<Rightarrow> int option" where
  \<comment> \<open>\<^verbatim>\<open>Date.UTC(year, month, date)\<close>: a year from 0 to 99 stands for 1900 + year\<close>
  "Date_UTC year month date =
     (let yr = (if 0 \<le> year \<and> year \<le> 99 then 1900 + year else year)
      in TimeClip (MakeDate (MakeDay yr month date) 0))"

definition setUTCDate :: "int \<Rightarrow> int \<Rightarrow> int option" where
  "setUTCDate t date =
     TimeClip (MakeDate (MakeDay (YearFromTime t) (MonthFromTime t) date) (TimeWithinDay t))"

definition isoWeekNumberUTC :: "int option \<Rightarrow> int option" where
  \<comment> \<open>the result is \<open>None\<close> where the script computes NaN\<close>
  "isoWeekNumberUTC date =
     (case date of
        None \<Rightarrow> None
      | Some t \<Rightarrow>
         (case Date_UTC (YearFromTime t) (MonthFromTime t) (DateFromTime t) of
            None \<Rightarrow> None
          | Some d0 \<Rightarrow>
             (let day = (if WeekDay d0 \<noteq> 0 then WeekDay d0 else 7)
              in case setUTCDate d0 (DateFromTime d0 + 4 - day) of
                   None \<Rightarrow> None
                 | Some d \<Rightarrow>
                    (case Date_UTC (YearFromTime d) 0 1 of
                       None \<Rightarrow> None
                     | Some yearStart \<Rightarrow>
                        (let diffDays = (d - yearStart) div 86400000 + 1
                         in Some (- ((- diffDays) div 7)))))))"

definition nextWeekHandleUTC :: "int \<Rightarrow> string \<Rightarrow> string" where
  \<comment> \<open>\<open>now\<close> is the time value of \<^verbatim>\<open>new Date()\<close>\<close>
  "nextWeekHandleUTC now sfx =
     (let nextWeekDate = TimeClip (now + 7 * 86400000);
          nextWeek = isoWeekNumberUTC nextWeekDate
      in ''week-'' @ (case nextWeek of None \<Rightarrow> ''NaN'' | Some n \<Rightarrow> intToString n)
           @ ''-'' @ sfx)"

definition handle :: "string option \<Rightarrow> int \<Rightarrow> string" where
  \<comment> \<open>\<^verbatim>\<open>process.argv[2] || nextWeekHandleUTC("plants")\<close>; \<open>argv2\<close> is \<open>None\<close> when the script
      is started without an argument\<close>
  "handle argv2 now =
     (case argv2 of
        Some h \<Rightarrow> if h \<noteq> [] then h else nextWeekHandleUTC now ''plants''
      | None \<Rightarrow> nextWeekHandleUTC now ''plants'')"

text \<open>
  The week number in the words of the specification: on day numbers (days since
  1970-01-01, a Thursday), shift to the Thursday of the Monday-based week, then take the
  ceiling of a seventh of the day of the year, 1 January being day 1.
\<close>

definition isoDayOfWeek :: "int \<Rightarrow> int" where
  \<comment> \<open>Monday is 1, Sunday is 7\<close>
  "isoDayOfWeek d = (d + 3) mod 7 + 1"

definition isoWeek :: "int \<Rightarrow> int" where
  "isoWeek d =
     (let thursday = d + (4 - isoDayOfWeek d);
          dayOfYear = thursday - DayFromYear (YearFromDay thursday) + 1
      in \<lceil>(of_int dayOfYear :: rat) / 7\<rceil>)"

section \<open>Numbers: \<^verbatim>\<open>Number(string)\<close> and \<^verbatim>\<open>toFixed\<close>\<close>

text \<open>
  A JavaScript number is NaN, an infinity or a finite IEEE-754 double, held here as the
  rational it denotes (the sign of zero is not kept: no function of the script reads it).
\<close>

datatype number = NaN | PosInfinity | NegInfinity | Finite rat

definition pow2 :: "int \<Rightarrow> rat" where
  "pow2 z = (if 0 \<le> z then 2 ^ nat z else 1 / 2 ^ nat (- z))"

definition pow10 :: "int \<Rightarrow> rat" where
  "pow10 z = (if 0 \<le> z then 10 ^ nat z else 1 / 10 ^ nat (- z))"

function bitLength :: "int \<Rightarrow> int" where
  "bitLength n = (if n \<le> 0 then 0 else 1 + bitLength (n div 2))"
  by pat_completeness auto
termination
  by (relation "measure nat") auto

declare bitLength.simps [simp del]

definition floorLog2 :: "rat \<Rightarrow> int" where
  \<comment> \<open>the \<open>e\<close> with \<open>2^e \<le> a < 2^(e+1)\<close>, for \<open>0 < a\<close>\<close>
  "floorLog2 a =
     (let (p, q) = quotient_of a;
          e = bitLength p - bitLength q
      in if pow2 e \<le> a then e else e - 1)"

definition roundHalfEven :: "rat \<Rightarrow> int" where
  "roundHalfEven y =
     (let f = \<lfloor>y\<rfloor>; d = y - of_int f
      in if d < 1 / 2 then f else if 1 / 2 < d then f + 1 else if even f then f else f + 1)"

definition roundToDouble :: "rat \<Rightarrow> rat option" where
  \<comment> \<open>round to nearest, ties to even, with 53 significant bits and the exponent range of a
      double; \<open>None\<close> when the magnitude rounds to \<open>2^1024\<close> or more\<close>
  "roundToDouble x =
     (if x = 0 then Some 0
      else let a = \<bar>x\<bar>;
               e = max (floorLog2 a) (- 1022);
               ulp = pow2 (e - 52);
               r = of_int (roundHalfEven (a / ulp)) * ulp
           in if 1024 \<le> floorLog2 r then None else Some (if x < 0 then - r else r))"

definition toDouble :: "rat \<Rightarrow> number" where
  "toDouble x =
     (case roundToDouble x of
        Some r \<Rightarrow> Finite r
      | None \<Rightarrow> if x < 0 then NegInfinity else PosInfinity)"

definition isDigit :: "char \<Rightarrow> bool" where
  "isDigit c = (48 \<le> (of_char c :: int) \<and> (of_char c :: int) \<le> 57)"

definition digitValue :: "char \<Rightarrow> int" where
  \<comment> \<open>the value of a digit \<^verbatim>\<open>0-9\<close>, \<^verbatim>\<open>a-z\<close> or \<^verbatim>\<open>A-Z\<close>; 36 for any other character\<close>
  "digitValue c =
     (let n = (of_char c :: int)
      in if 48 \<le> n \<and> n \<le> 57 then n - 48
         else if 97 \<le> n \<and> n \<le> 122 then n - 87
         else if 65 \<le> n \<and> n \<le> 90 then n - 55
         else 36)"

definition digitsValue :: "int \<Rightarrow> string \<Rightarrow> int" where
  "digitsValue b ds = foldl (\<lambda>a c. a * b + digitValue c) 0 ds"

definition ExponentPart :: "string \<Rightarrow> int option" where
  \<comment> \<open>the optional \<^verbatim>\<open>e\<close> or \<^verbatim>\<open>E\<close> with its signed integer, up to the end of the text\<close>
  "ExponentPart r =
     (case r of
        [] \<Rightarrow> Some 0
      | c # t \<Rightarrow>
          if c = CHR ''e'' \<or> c = CHR ''E'' then
            (let neg = (t \<noteq> [] \<and> hd t = CHR ''-'');
                 ds = (if t \<noteq> [] \<and> (hd t = CHR ''-'' \<or> hd t = CHR ''+'') then tl t else t)
             in if ds \<noteq> [] \<and> list_all isDigit ds
                then Some (if neg then - digitsValue 10 ds else digitsValue 10 ds)
                else None)
          else None)"

definition StrUnsignedDecimalLiteral :: "string \<Rightarrow> rat option" where
  \<comment> \<open>\<^verbatim>\<open>digits . digits? exponent?\<close>, \<^verbatim>\<open>. digits exponent?\<close> or \<^verbatim>\<open>digits exponent?\<close>:
      its mathematical value, \<open>None\<close> when the text is none of them\<close>
  "StrUnsignedDecimalLiteral t =
     (let ip = takeWhile isDigit t;
          r1 = dropWhile isDigit t;
          dot = (r1 \<noteq> [] \<and> hd r1 = CHR ''.'');
          fp = (if dot then takeWhile isDigit (tl r1) else []);
          r2 = (if dot then dropWhile isDigit (tl r1) else r1)
      in if ip = [] \<and> fp = [] then None
         else case ExponentPart r2 of
                None \<Rightarrow> None
              | Some e \<Rightarrow> Some (of_int (digitsValue 10 (ip @ fp)) * pow10 (e - int (length fp))))"

definition NonDecimalIntegerLiteral :: "string \<Rightarrow> int option" where
  \<comment> \<open>\<^verbatim>\<open>0x\<close>, \<^verbatim>\<open>0o\<close> and \<^verbatim>\<open>0b\<close> literals (either case of the letter)\<close>
  "NonDecimalIntegerLiteral t =
     (case t of
        z # x # ds \<Rightarrow>
          (let b = (if x = CHR ''x'' \<or> x = CHR ''X'' then 16
                    else if x = CHR ''o'' \<or> x = CHR ''O'' then 8
                    else if x = CHR ''b'' \<or> x = CHR ''B'' then 2 else (0::int))
           in if z = CHR ''0'' \<and> b \<noteq> 0 \<and> ds \<noteq> [] \<and> list_all (\<lambda>c. digitValue c < b) ds
              then Some (digitsValue b ds) else None)
      | _ \<Rightarrow> None)"

definition StringToNumber :: "string \<Rightarrow> number" where
  "StringToNumber s =
     (let t = trim s
      in if t = [] then Finite 0
         else case NonDecimalIntegerLiteral t of
                Some n \<Rightarrow> toDouble (of_int n)
              | None \<Rightarrow>
                 (let neg = (hd t = CHR ''-'');
                      u = (if hd t = CHR ''-'' \<or> hd t = CHR ''+'' then tl t else t)
                  in if u = ''Infinity'' then (if neg then NegInfinity else PosInfinity)
                     else case StrUnsignedDecimalLiteral u of
                            None \<Rightarrow> NaN
                          | Some v \<Rightarrow> toDouble (if neg then - v else v)))"

definition Number :: "string \<Rightarrow> number" where
  \<comment> \<open>\<^verbatim>\<open>Number(amountStr)\<close> for a string argument\<close>
  "Number s = StringToNumber s"


text \<open>
  \<^verbatim>\<open>Number::toString\<close> for a double of magnitude at least \<open>10^21\<close>, the only numbers
  \<^verbatim>\<open>toFixed\<close> hands to it: the shortest digit string \<open>s\<close> (of \<open>k\<close> digits) with
  \<open>s * 10^(n-k)\<close> rounding to the double, printed in exponent notation.
\<close>

definition shortestDigits :: "rat \<Rightarrow> nat \<Rightarrow> (int \<times> nat) option" where
  \<comment> \<open>the \<open>k\<close>-digit candidate closest to \<open>a\<close>, with its \<open>n\<close>, when one rounds to \<open>a\<close>\<close>
  "shortestDigits a k =
     (let n0 = length (decimalDigits \<lfloor>a\<rfloor>);
          e = n0 - k;
          lo = \<lfloor>a / 10 ^ e\<rfloor>;
          ok = filter (\<lambda>s. roundToDouble (of_int s * 10 ^ e) = Some a) [lo, lo + 1]
      in case ok of
           [] \<Rightarrow> None
         | [s] \<Rightarrow> Some (if s = 10 ^ k then (10 ^ (k - 1), n0 + 1) else (s, n0))
         | s # s' # _ \<Rightarrow>
             (let d = a - of_int s * 10 ^ e; d' = of_int s' * 10 ^ e - a;
                  c = (if d < d' \<or> (d = d' \<and> even s) then s else s')
              in Some (if c = 10 ^ k then (10 ^ (k - 1), n0 + 1) else (c, n0))))"

definition NumberToString :: "rat \<Rightarrow> string" where
  "NumberToString a =
     (case List.find (\<lambda>k. shortestDigits a k \<noteq> None) [1..<18] of
        None \<Rightarrow> decimalDigits \<lfloor>a\<rfloor>
      | Some k \<Rightarrow>
          (case shortestDigits a k of
             None \<Rightarrow> decimalDigits \<lfloor>a\<rfloor>
           | Some (s, n) \<Rightarrow>
               (let ds = decimalDigits s
                in (if k = 1 then ds else hd ds # ''.'' @ tl ds) @ ''e+'' @ natToString (n - 1))))"

definition toFixed :: "rat \<Rightarrow> nat \<Rightarrow> string" where
  \<comment> \<open>\<^verbatim>\<open>x.toFixed(f)\<close> for a finite \<open>x\<close>\<close>
  "toFixed x f =
     (let s = (if x < 0 then ''-'' else []);
          a = \<bar>x\<bar>
      in if 10 ^ 21 \<le> a then s @ NumberToString a
         else let n = \<lfloor>a * 10 ^ f + 1 / 2\<rfloor>;
                  m = decimalDigits n;
                  z = (if length m \<le> f then replicate (f + 1 - length m) (CHR ''0'') @ m else m)
              in s @ (if f \<noteq> 0 then take (length z - f) z @ ''.'' @ drop (length z - f) z else m))"

section \<open>Prices\<close>

definition symbols :: "(string \<times> string) list" where
  \<comment> \<open>the object literal of \<^verbatim>\<open>formatMoney\<close>; the entries of EUR and GBP are the bytes of the
      source file (U+201A U+00C7 U+00A8 and U+00AC U+00A3)\<close>
  "symbols =
     [(''USD'', ''$''),
      (''EUR'', [CHR 0xE2, CHR 0x80, CHR 0x9A, CHR 0xC3, CHR 0x87, CHR 0xC2, CHR 0xA8]),
      (''GBP'', [CHR 0xC2, CHR 0xAC, CHR 0xC2, CHR 0xA3]),
      (''HUF'', ''Ft''),
      (''CAD'', ''$''),
      (''AUD'', ''$'')]"

definition ObjectPrototype :: "(string \<times> string) list" where
  \<comment> \<open>the members every object literal inherits, with the text Node.js prints for each in a
      template literal: \<^verbatim>\<open>symbols[currencyCode]\<close> finds them too\<close>
  "ObjectPrototype =
     map (\<lambda>f. (f, ''function '' @ f @ ''() { [native code] }''))
       [''__defineGetter__'', ''__defineSetter__'', ''hasOwnProperty'', ''__lookupGetter__'',
        ''__lookupSetter__'', ''isPrototypeOf'', ''propertyIsEnumerable'', ''toString'',
        ''valueOf'', ''toLocaleString'']
     @ [(''constructor'', ''function Object() { [native code] }''),
        (''__proto__'', ''[object Object]'')]"

definition currencySymbol :: "string \<Rightarrow> string" where
  \<comment> \<open>\<^verbatim>\<open>symbols[currencyCode] || currencyCode\<close>, as the template literal prints it\<close>
  "currencySymbol currencyCode =
     (case map_of symbols currencyCode of
        Some v \<Rightarrow> if v \<noteq> [] then v else currencyCode
      | None \<Rightarrow>
          (case map_of ObjectPrototype currencyCode of
             Some inherited \<Rightarrow> inherited
           | None \<Rightarrow> currencyCode))"

definition formatMoney :: "string \<Rightarrow> string \<Rightarrow> string" where
  "formatMoney amountStr currencyCode =
     (case Number amountStr of
        Finite n \<Rightarrow> currencySymbol currencyCode @ toFixed n 2
      | _ \<Rightarrow> [])"

definition formatMoney_card :: "string \<Rightarrow> string \<Rightarrow> string" where
  "formatMoney_card amountStr currencyCode =
     (case Number amountStr of
        Finite n \<Rightarrow> currencyCode @ '' '' @ toFixed n 2
      | _ \<Rightarrow> [])"

section \<open>Rendering\<close>

text \<open>
  The display record \<^verbatim>\<open>getProductsInCollection\<close> builds for each product. The template
  literals below are those of the source, line by line; \<^verbatim>\<open>${...}\<close> is concatenation.
\<close>

record product =
  title :: string
  url :: string
  price :: string
  imageUrl :: string
  imageAlt :: string

subsection \<open>The striped table (\<^verbatim>\<open>buildHtml\<close> beside the currency symbols)\<close>

definition rows_bgColor :: "nat \<Rightarrow> string" where
  \<open>rows_bgColor index =
     (if index mod 2 = 0 then ''#f4ebe6'' else ''#d6b5a2'')\<close>

definition rows_img :: "product \<Rightarrow> string" where
  \<open>rows_img p =
     (if imageUrl p \<noteq> []
      then ''<img src="''
           @ imageUrl p
           @ ''" alt="''
           @ esc (Some (imageAlt p))
           @ ''" width="72" height="72"\<newline>''
           @ ''              style="display:block;object-fit:cover;border:none;">''
      else ''<div style="width:72px;height:72px;background:#eee;"></div>'')\<close>

definition rows_price :: "product \<Rightarrow> string" where
  \<open>rows_price p =
     (if price p \<noteq> []
      then ''<div style="margin-top:4px;color:#222829;font-size:13px;">''
           @ esc (Some (price p))
           @ ''</div>''
      else [])\<close>

definition rows_row :: "product \<Rightarrow> nat \<Rightarrow> string" where
  \<open>rows_row p index =
     trim
       (''\<newline>''
        @ ''      <tr style="background:''
        @ rows_bgColor index
        @ '';">\<newline>''
        @ ''        <td style="padding:12px 10px;vertical-align:top;width:84px;">\<newline>''
        @ ''          ''
        @ rows_img p
        @ ''\<newline>''
        @ ''        </td>\<newline>''
        @ ''        <td style="padding:12px 10px;vertical-align:top;">\<newline>''
        @ ''          <div style="color:#222829;font-weight:600;">\<newline>''
        @ ''            ''
        @ esc (Some (title p))
        @ ''\<newline>''
        @ ''          </div>\<newline>''
        @ ''          ''
        @ rows_price p
        @ ''\<newline>''
        @ ''        </td>\<newline>''
        @ ''      </tr>\<newline>''
        @ ''    '')\<close>

definition rows :: "product list \<Rightarrow> string" where
  \<open>rows products =
     join ''\<newline>''
       (map (\<lambda>(p, index). rows_row p index) (zip products [0..<length products]))\<close>

definition emptyRow :: "string" where
  \<open>emptyRow =
     trim
       (''\<newline>''
        @ ''    <tr>\<newline>''
        @ ''      <td style="padding:12px;color:#222829;">No products found.</td>\<newline>''
        @ ''    </tr>\<newline>''
        @ ''  '')\<close>

definition buildHtml :: "string option \<Rightarrow> product list \<Rightarrow> string \<Rightarrow> string" where
  \<open>buildHtml collectionTitle products collectionLink =
     trim
       (''\<newline>''
        @ ''<a href="''
        @ collectionLink
        @ ''" style="text-decoration:none;color:#222829;display:block;">\<newline>''
        @ ''  <div style="font-family:Arial,sans-serif;font-size:14px;line-height:1.4;color:#222829;">\<newline>''
        @ ''      \<newline>''
        @ ''      <table role="presentation" cellpadding="0" cellspacing="0"\<newline>''
        @ ''             style="width:100%;border-collapse:collapse;">\<newline>''
        @ ''        <tbody>\<newline>''
        @ ''          ''
        @ (if length products \<noteq> 0 then rows products else emptyRow)
        @ ''\<newline>''
        @ ''        </tbody>\<newline>''
        @ ''      </table>\<newline>''
        @ ''\<newline>''
        @ ''  </div>\<newline>''
        @ ''</a>\<newline>'')\<close>

subsection \<open>The bordered card with the title and the product count\<close>

definition rows_img_card :: "product \<Rightarrow> string" where
  \<open>rows_img_card p =
     (if imageUrl p \<noteq> []
      then ''<img src="''
           @ imageUrl p
           @ ''" alt="''
           @ esc (Some (imageAlt p))
           @ ''" width="56" height="56"\<newline>''
           @ ''              style="display:block;border-radius:10px;object-fit:cover;border:1px solid #eee;">''
      else ''<div style="width:56px;height:56px;border-radius:10px;background:#f3f3f3;border:1px solid #eee;"></div>'')\<close>

definition rows_price_card :: "product \<Rightarrow> string" where
  \<open>rows_price_card p =
     (if price p \<noteq> []
      then ''<div style="margin-top:4px;color:#666;font-size:12px;">''
           @ esc (Some (price p))
           @ ''</div>''
      else [])\<close>

definition rows_row_card :: "product \<Rightarrow> string" where
  \<open>rows_row_card p =
     trim
       (''\<newline>''
        @ ''      <tr>\<newline>''
        @ ''        <td style="padding:10px 0;border-top:1px solid #eee;vertical-align:top;width:68px;">\<newline>''
        @ ''          ''
        @ rows_img_card p
        @ ''\<newline>''
        @ ''        </td>\<newline>''
        @ ''        <td style="padding:10px 0;border-top:1px solid #eee;vertical-align:top;">\<newline>''
        @ ''          <div style="color:#111;font-weight:600;">\<newline>''
        @ ''            ''
        @ esc (Some (title p))
        @ ''\<newline>''
        @ ''          </div>\<newline>''
        @ ''          ''
        @ rows_price_card p
        @ ''\<newline>''
        @ ''        </td>\<newline>''
        @ ''      </tr>\<newline>''
        @ ''    '')\<close>




subsection \<open>The unordered list of \<^verbatim>\<open>update-collection-basic.js\<close>\<close>

definition items_basic :: "product list \<Rightarrow> string" where
  \<open>items_basic products =
     join ''\<newline>''
       (map (\<lambda>p. ''<li style="margin:0 0 8px 0;"><a href="''
                  @ url p
                  @ ''" style="color:#111;text-decoration:none;">''
                  @ esc_basic (Some (title p))
                  @ ''</a></li>'')
          products)\<close>

definition buildHtml_basic :: "string option \<Rightarrow> product list \<Rightarrow> string" where
  \<open>buildHtml_basic collectionTitle products =
     trim
       (''\<newline>''
        @ ''<div style="font-family:Arial,sans-serif;font-size:14px;line-height:1.4;">\<newline>''
        @ ''  <p style="margin:0 0 10px 0;"><strong>''
        @ esc_basic collectionTitle
        @ ''</strong> (''
        @ natToString (length products)
        @ '' products)</p>\<newline>''
        @ ''  <ul style="padding-left:18px;margin:0;">\<newline>''
        @ (if items_basic products \<noteq> [] then items_basic products
          else ''    <li>No products found.</li>'')
        @ ''\<newline>''
        @ ''  </ul>\<newline>''
        @ ''</div>\<newline>'')\<close>

section \<open>The Admin API\<close>

text \<open>
  The remote is a function from requests to responses; every call is recorded in a log, so
  that a theorem can say which calls a run has made. A response carries its status, its
  body text and what \<^verbatim>\<open>JSON.parse\<close> makes of that text. The \<^verbatim>\<open>data\<close> of a GraphQL answer is
  typed by the selection of its query: a field the script guards with \<^verbatim>\<open>?.\<close> or \<^verbatim>\<open>||\<close> is an
  option, \<open>None\<close> where the answer has \<^verbatim>\<open>null\<close> or leaves the field out. The handle of a
  product is interpolated into a template literal as it is, which prints \<^verbatim>\<open>null\<close> and a
  missing field differently, so it keeps the two apart. An entry of the \<^verbatim>\<open>errors\<close> array is
  held as the JSON text that \<^verbatim>\<open>JSON.stringify\<close> prints for it.
\<close>

datatype error = Error string | SyntaxError | TypeError | Usage

datatype 'a nullable = Undefined | Null | Value 'a

record collection =
  collection_id :: string
  collection_title :: "string option"

record money =
  amount :: string
  currencyCode :: string

record priceRange =
  minVariantPrice :: "money option"

record image =
  image_url :: "string option"
  altText :: "string option"

record productNode =
  node_title :: "string option"
  node_handle :: "string nullable"
  onlineStoreUrl :: "string option"
  featuredImage :: "image option"
  priceRangeV2 :: "priceRange option"

record productConnection =
  edges :: "productNode option list option"

record shopNode =
  shop_id :: "string option"

record userError =
  field :: "string list option"
  message :: string

record metafieldsSetPayload =
  userErrors :: "userError list option"

datatype payload =
    CollectionByHandle "collection option"
  | Products "productConnection option"
  | Shop "shopNode option"
  | MetafieldsSet "metafieldsSetPayload option"

record body =
  errors :: "string list option"
  data :: "payload option"

datatype parsed = NotJson | JsonNull | JsonScalar | JsonObject body

record response =
  status :: nat
  responseText :: string
  json :: parsed

record metafieldInput =
  mf_ownerId :: "string option"
  mf_namespace :: string
  mf_key :: string
  mf_type :: string
  mf_value :: string

datatype vars =
    NoVars
  | HandleVars string
  | ProductsVars nat string
  | MetafieldsVars "metafieldInput list"

record request =
  endpoint :: string
  accessToken :: string
  query :: string
  variables :: vars

type_synonym remote = "request \<Rightarrow> response"

definition API :: "string \<Rightarrow> string" where
  "API shop = ''https://'' @ shop @ ''.myshopify.com/admin/api/2024-10/graphql.json''"

definition ok :: "response \<Rightarrow> bool" where
  "ok res = (200 \<le> status res \<and> status res \<le> 299)"

definition hexDigit :: "nat \<Rightarrow> char" where
  "hexDigit n = (if n < 10 then char_of (48 + n) else char_of (87 + n))"

definition QuoteJSONString :: "string \<Rightarrow> string" where
  \<comment> \<open>a string as \<^verbatim>\<open>JSON.stringify\<close> prints it\<close>
  \<open>QuoteJSONString s =
     [CHR 0x22]
     @ concat (map (\<lambda>c.
         if c = CHR 0x22 then [CHR 0x5C, CHR 0x22]
         else if c = CHR 0x5C then [CHR 0x5C, CHR 0x5C]
         else if c = CHR 0x08 then [CHR 0x5C, CHR ''b'']
         else if c = CHR 0x09 then [CHR 0x5C, CHR ''t'']
         else if c = CHR 0x0A then [CHR 0x5C, CHR ''n'']
         else if c = CHR 0x0C then [CHR 0x5C, CHR ''f'']
         else if c = CHR 0x0D then [CHR 0x5C, CHR ''r'']
         else if (of_char c :: nat) < 32
           then [CHR 0x5C, CHR ''u'', CHR ''0'', CHR ''0'',
                 hexDigit (of_char c div 16), hexDigit (of_char c mod 16)]
         else [c]) s)
     @ [CHR 0x22]\<close>

definition stringifyArray :: "string list \<Rightarrow> string" where
  \<comment> \<open>an array whose entries are already printed\<close>
  "stringifyArray xs = ''['' @ join '','' xs @ '']''"

definition stringifyUserError :: "userError \<Rightarrow> string" where
  \<open>stringifyUserError e =
     ''{"field":''
     @ (case field e of None \<Rightarrow> ''null'' | Some fs \<Rightarrow> stringifyArray (map QuoteJSONString fs))
     @ '',"message":'' @ QuoteJSONString (message e) @ ''}''\<close>

text \<open>
  An \<^verbatim>\<open>async\<close> function takes the log and returns its result, or the error it throws, with
  the log extended by the calls it made.
\<close>

type_synonym 'a io = "request list \<Rightarrow> (error + 'a) \<times> request list"

definition bindIO :: "'a io \<Rightarrow> ('a \<Rightarrow> 'b io) \<Rightarrow> 'b io" where
  "bindIO m f calls = (case m calls of (Inl e, calls') \<Rightarrow> (Inl e, calls') | (Inr x, calls') \<Rightarrow> f x calls')"

definition returnIO :: "'a \<Rightarrow> 'a io" where
  "returnIO x calls = (Inr x, calls)"

definition throwIO :: "error \<Rightarrow> 'a io" where
  "throwIO e calls = (Inl e, calls)"

definition gql :: "remote \<Rightarrow> string \<Rightarrow> string \<Rightarrow> string \<Rightarrow> vars \<Rightarrow> payload option io" where
  "gql remote shop token q v calls =
     (let req = \<lparr>endpoint = API shop, accessToken = token, query = q, variables = v\<rparr>;
          res = remote req
      in (if \<not> ok res then Inl (Error (''HTTP '' @ natToString (status res) @ '': '' @ responseText res))
          else case json res of
                 NotJson \<Rightarrow> Inl SyntaxError
               | JsonNull \<Rightarrow> Inl TypeError
               | JsonScalar \<Rightarrow> Inr None
               | JsonObject b \<Rightarrow>
                  (case errors b of
                     Some (e # es) \<Rightarrow> Inl (Error (''GraphQL errors: '' @ stringifyArray (e # es)))
                   | _ \<Rightarrow> Inr (data b)),
          calls @ [req]))"

definition collectionQ :: string where
  \<open>collectionQ =
     ''query($handle:String!){\<newline>''
     @ ''    collectionByHandle(handle:$handle){ id title }\<newline>''
     @ ''  }''\<close>

definition productsQ :: string where
  \<open>productsQ =
     ''query($first:Int!,$query:String!){\<newline>''
     @ ''    products(first:$first, query:$query, sortKey:TITLE){\<newline>''
     @ ''      edges{\<newline>''
     @ ''        node{\<newline>''
     @ ''          title\<newline>''
     @ ''          handle\<newline>''
     @ ''          onlineStoreUrl\<newline>''
     @ ''          featuredImage {\<newline>''
     @ ''            url\<newline>''
     @ ''            altText\<newline>''
     @ ''          }\<newline>''
     @ ''          priceRangeV2 {\<newline>''
     @ ''            minVariantPrice { amount currencyCode }\<newline>''
     @ ''          }\<newline>''
     @ ''        }\<newline>''
     @ ''      }\<newline>''
     @ ''    }\<newline>''
     @ ''  }''\<close>

definition shopQ :: string where
  \<open>shopQ =
     ''query{ shop{ id } }''\<close>

definition metafieldsSetM :: string where
  \<open>metafieldsSetM =
     ''mutation($metafields:[MetafieldsSetInput!]!){\<newline>''
     @ ''    metafieldsSet(metafields:$metafields){\<newline>''
     @ ''      metafields{ id namespace key }\<newline>''
     @ ''      userErrors{ field message }\<newline>''
     @ ''    }\<newline>''
     @ ''  }''\<close>


definition collectionUrlFromHandle :: "string \<Rightarrow> string \<Rightarrow> string" where
  "collectionUrlFromHandle shop h = ''https://'' @ shop @ ''.myshopify.com/collections/'' @ h"

definition lastSegment :: "string \<Rightarrow> string" where
  \<comment> \<open>\<^verbatim>\<open>id.split("/").pop()\<close>\<close>
  "lastSegment s = rev (takeWhile (\<lambda>c. c \<noteq> CHR ''/'') (rev s))"

definition getCollectionNumericId ::
  "remote \<Rightarrow> string \<Rightarrow> string \<Rightarrow> string \<Rightarrow> (string option \<times> string) io" where
  \<comment> \<open>the result is the pair of \<^verbatim>\<open>title\<close> and \<^verbatim>\<open>numericId\<close>\<close>
  "getCollectionNumericId remote shop token h =
     bindIO (gql remote shop token collectionQ (HandleVars h)) (\<lambda>d.
       case (case d of Some (CollectionByHandle c) \<Rightarrow> c | _ \<Rightarrow> None) of
         None \<Rightarrow> throwIO (Error (''Collection not found: '' @ h))
       | Some c \<Rightarrow> returnIO (collection_title c, lastSegment (collection_id c)))"

definition orElse :: "string option \<Rightarrow> string \<Rightarrow> string" where
  \<comment> \<open>\<^verbatim>\<open>a || b\<close> for a string or nothing on the left\<close>
  "orElse a b = (case a of Some v \<Rightarrow> if v \<noteq> [] then v else b | None \<Rightarrow> b)"

definition toProduct :: "string \<Rightarrow> productNode option \<Rightarrow> error + product" where
  \<comment> \<open>the callback of \<^verbatim>\<open>map\<close>; \<^verbatim>\<open>p.title\<close> throws where the edge has no node\<close>
  "toProduct shop p =
     (let money = (case p of
                     Some n \<Rightarrow> (case priceRangeV2 n of Some r \<Rightarrow> minVariantPrice r | None \<Rightarrow> None)
                   | None \<Rightarrow> None);
          price = (case money of Some m \<Rightarrow> formatMoney (amount m) (currencyCode m) | None \<Rightarrow> []);
          img = (case p of Some n \<Rightarrow> featuredImage n | None \<Rightarrow> None);
          imageUrl = orElse (case img of Some i \<Rightarrow> image_url i | None \<Rightarrow> None) [];
          imageAlt = orElse (case img of Some i \<Rightarrow> altText i | None \<Rightarrow> None)
                       (orElse (case p of Some n \<Rightarrow> node_title n | None \<Rightarrow> None) [])
      in case p of
           None \<Rightarrow> Inl TypeError
         | Some n \<Rightarrow>
             Inr \<lparr>title = orElse (node_title n) [],
                  url = orElse (onlineStoreUrl n)
                          (''https://'' @ shop @ ''.myshopify.com/products/''
                           @ (case node_handle n of
                                Value h \<Rightarrow> h
                              | Null \<Rightarrow> ''null''
                              | Undefined \<Rightarrow> ''undefined'')),
                  price = price, imageUrl = imageUrl, imageAlt = imageAlt\<rparr>)"

fun mapE :: "('a \<Rightarrow> error + 'b) \<Rightarrow> 'a list \<Rightarrow> error + 'b list" where
  "mapE f [] = Inr []"
| "mapE f (x # xs) =
     (case f x of
        Inl e \<Rightarrow> Inl e
      | Inr y \<Rightarrow> (case mapE f xs of Inl e \<Rightarrow> Inl e | Inr ys \<Rightarrow> Inr (y # ys)))"

definition getProductsInCollection ::
  "remote \<Rightarrow> string \<Rightarrow> string \<Rightarrow> string \<Rightarrow> nat \<Rightarrow> product list io" where
  "getProductsInCollection remote shop token numericId first =
     bindIO (gql remote shop token productsQ (ProductsVars first (''collection_id:'' @ numericId)))
       (\<lambda>d. let es = (case d of
                         Some (Products (Some c)) \<Rightarrow> (case edges c of Some es \<Rightarrow> es | None \<Rightarrow> [])
                       | _ \<Rightarrow> [])
             in case mapE (toProduct shop) es of
                  Inl e \<Rightarrow> throwIO e
                | Inr ps \<Rightarrow> returnIO ps)"

definition writeShopMetafield :: "remote \<Rightarrow> string \<Rightarrow> string \<Rightarrow> string \<Rightarrow> unit io" where
  "writeShopMetafield remote shop token html =
     bindIO (gql remote shop token shopQ NoVars) (\<lambda>d0.
       case d0 of
         Some (Shop (Some sh)) \<Rightarrow>
           bindIO (gql remote shop token metafieldsSetM
                     (MetafieldsVars
                        [\<lparr>mf_ownerId = shop_id sh, mf_namespace = ''email'',
                          mf_key = ''collection_html_1'', mf_type = ''multi_line_text_field'',
                          mf_value = html\<rparr>]))
             (\<lambda>d. let errs = (case d of
                                Some (MetafieldsSet (Some m)) \<Rightarrow>
                                  (case userErrors m of Some es \<Rightarrow> es | None \<Rightarrow> [])
                              | _ \<Rightarrow> [])
                   in if length errs \<noteq> 0
                      then throwIO (Error (''metafieldsSet userErrors: ''
                                            @ stringifyArray (map stringifyUserError errs)))
                      else returnIO ())
       | _ \<Rightarrow> throwIO TypeError)"

definition main :: "remote \<Rightarrow> string \<Rightarrow> string \<Rightarrow> string \<Rightarrow> string io" where
  \<comment> \<open>the body of the \<^verbatim>\<open>try\<close> block; the result is the HTML written\<close>
  "main remote shop token h =
     bindIO (getCollectionNumericId remote shop token h) (\<lambda>(title, numericId).
       bindIO (getProductsInCollection remote shop token numericId 50) (\<lambda>products.
         let collectionLink = collectionUrlFromHandle shop h;
             html = buildHtml title products collectionLink
         in bindIO (writeShopMetafield remote shop token html) (\<lambda>_. returnIO html)))"

definition script ::
  "string option \<Rightarrow> string option \<Rightarrow> string option \<Rightarrow> int \<Rightarrow> remote
     \<Rightarrow> (error + string) \<times> request list \<times> nat" where
  \<comment> \<open>the whole script, from the environment variables, the first argument and the clock:
      the outcome, the calls made and the exit code\<close>
  "script shopEnv tokenEnv argv2 now remote =
     (case (shopEnv, tokenEnv) of
        (Some shop, Some token) \<Rightarrow>
          if shop = [] \<or> token = [] then (Inl Usage, [], 1)
          else (case main remote shop token (handle argv2 now) [] of
                  (Inl e, calls) \<Rightarrow> (Inl e, calls, 1)
                | (Inr html, calls) \<Rightarrow> (Inr html, calls, 0))
      | _ \<Rightarrow> (Inl Usage, [], 1))"

section \<open>Properties of the string functions\<close>

text \<open>
  \<^verbatim>\<open>trim\<close> on a template literal: blanks around markup that opens with \<open><\<close> and closes with
  \<open>>\<close> are removed and nothing else is.
\<close>

lemma stripLeading_skip:
  assumes "[c] \<in> set ws" and "\<forall>w \<in> set ws. w \<noteq> [] \<and> prefix w (c # s) \<longrightarrow> w = [c]"
  shows "stripLeading ws (c # s) = stripLeading ws s"
proof -
  obtain w where w: "List.find (\<lambda>w. w \<noteq> [] \<and> prefix w (c # s)) ws = Some w"
    using assms(1) by (cases "List.find (\<lambda>w. w \<noteq> [] \<and> prefix w (c # s)) ws") (auto simp: find_None_iff)
  then have "w \<in> set ws" "w \<noteq> []" "prefix w (c # s)"
    by (auto simp: find_Some_iff)
  with assms(2) have "w = [c]" by blast
  with w show ?thesis by (subst stripLeading.simps) simp
qed

lemma stripLeading_stop:
  assumes "\<forall>w \<in> set ws. w \<noteq> [] \<longrightarrow> hd w \<noteq> c"
  shows "stripLeading ws (c # s) = c # s"
proof -
  have "List.find (\<lambda>w. w \<noteq> [] \<and> prefix w (c # s)) ws = None"
    using assms by (auto simp: find_None_iff prefix_Cons neq_Nil_conv)
  then show ?thesis by (subst stripLeading.simps) simp
qed

lemma trimStart_blank: "asciiBlank c \<Longrightarrow> trimStart (c # s) = trimStart s"
  unfolding trimStart_def asciiBlank_def
  by (rule stripLeading_skip; elim disjE; simp add: StrWhiteSpaceChar_def)

lemma trimStart_lt: "trimStart (CHR ''<'' # s) = CHR ''<'' # s"
  unfolding trimStart_def
  by (rule stripLeading_stop) (simp add: StrWhiteSpaceChar_def)

lemma stripRev_blank:
  "asciiBlank c \<Longrightarrow> stripLeading (map rev StrWhiteSpaceChar) (c # s) = stripLeading (map rev StrWhiteSpaceChar) s"
  unfolding asciiBlank_def
  by (rule stripLeading_skip; elim disjE; simp add: StrWhiteSpaceChar_def)

lemma stripRev_gt:
  "stripLeading (map rev StrWhiteSpaceChar) (CHR ''>'' # s) = CHR ''>'' # s"
  by (rule stripLeading_stop) (simp add: StrWhiteSpaceChar_def)

lemma trimStart_blanks: "list_all asciiBlank w \<Longrightarrow> trimStart (w @ s) = trimStart s"
  by (induction w) (simp_all add: trimStart_blank)

lemma stripRev_blanks:
  "list_all asciiBlank w \<Longrightarrow> stripLeading (map rev StrWhiteSpaceChar) (w @ s) = stripLeading (map rev StrWhiteSpaceChar) s"
  by (induction w) (simp_all add: stripRev_blank)

lemma trimEnd_gt: "list_all asciiBlank w \<Longrightarrow> trimEnd (u @ CHR ''>'' # w) = u @ ''>''"
proof -
  assume w: "list_all asciiBlank w"
  then have "list_all asciiBlank (rev w)" by (simp add: list_all_iff)
  then show ?thesis
    unfolding trimEnd_def by (simp add: stripRev_blanks stripRev_gt)
qed

lemma trim_markup:
  assumes "list_all asciiBlank w1" and "list_all asciiBlank w2"
    and "T \<noteq> []" and "hd T = CHR ''<''" and "last T = CHR ''>''"
  shows "trim (w1 @ T @ w2) = T"
proof -
  obtain u where T: "T = u @ ''>''"
    using assms(3,5) by (metis append_butlast_last_id)
  obtain v where T': "T = CHR ''<'' # v"
    using assms(3,4) by (cases T) auto
  have "trimStart (w1 @ T @ w2) = T @ w2"
    using assms(1) by (simp add: trimStart_blanks T' trimStart_lt)
  then show ?thesis
    using assms(2) by (simp add: trim_def T trimEnd_gt)
qed

section \<open>Properties of the renderer\<close>

text \<open>What \<^verbatim>\<open>trim\<close> leaves of each template literal.\<close>

lemma rows_row_eq:
  \<open>rows_row p index =
     ''<tr style="background:''
     @ rows_bgColor index
     @ '';">\<newline>''
     @ ''        <td style="padding:12px 10px;vertical-align:top;width:84px;">\<newline>''
     @ ''          ''
     @ rows_img p
     @ ''\<newline>''
     @ ''        </td>\<newline>''
     @ ''        <td style="padding:12px 10px;vertical-align:top;">\<newline>''
     @ ''          <div style="color:#222829;font-weight:600;">\<newline>''
     @ ''            ''
     @ esc (Some (title p))
     @ ''\<newline>''
     @ ''          </div>\<newline>''
     @ ''          ''
     @ rows_price p
     @ ''\<newline>''
     @ ''        </td>\<newline>''
     @ ''      </tr>''\<close>
  (is "_ = ?T")
proof -
  have "rows_row p index = trim (''\<newline>      '' @ ?T @ ''\<newline>    '')"
    by (simp add: rows_row_def)
  also have "\<dots> = ?T"
    by (rule trim_markup) (simp_all add: asciiBlank_def)
  finally show ?thesis .
qed

lemma emptyRow_eq:
  \<open>emptyRow =
     ''<tr>\<newline>''
     @ ''      <td style="padding:12px;color:#222829;">No products found.</td>\<newline>''
     @ ''    </tr>''\<close>
  (is "_ = ?T")
proof -
  have "emptyRow = trim (''\<newline>    '' @ ?T @ ''\<newline>  '')"
    by (simp add: emptyRow_def)
  also have "\<dots> = ?T"
    by (rule trim_markup) (simp_all add: asciiBlank_def)
  finally show ?thesis .
qed

lemma buildHtml_eq:
  \<open>buildHtml collectionTitle products collectionLink =
     ''<a href="''
     @ collectionLink
     @ ''" style="text-decoration:none;color:#222829;display:block;">\<newline>''
     @ ''  <div style="font-family:Arial,sans-serif;font-size:14px;line-height:1.4;color:#222829;">\<newline>''
     @ ''      \<newline>''
     @ ''      <table role="presentation" cellpadding="0" cellspacing="0"\<newline>''
     @ ''             style="width:100%;border-collapse:collapse;">\<newline>''
     @ ''        <tbody>\<newline>''
     @ ''          ''
     @ (if length products \<noteq> 0 then rows products else emptyRow)
     @ ''\<newline>''
     @ ''        </tbody>\<newline>''
     @ ''      </table>\<newline>''
     @ ''\<newline>''
     @ ''  </div>\<newline>''
     @ ''</a>''\<close>
  (is "_ = ?T")
proof -
  have "buildHtml collectionTitle products collectionLink = trim (''\<newline>'' @ ?T @ ''\<newline>'')"
    by (simp add: buildHtml_def)
  also have "\<dots> = ?T"
    by (rule trim_markup) (simp_all add: asciiBlank_def)
  finally show ?thesis .
qed

lemma rows_row_card_eq:
  \<open>rows_row_card p =
     ''<tr>\<newline>''
     @ ''        <td style="padding:10px 0;border-top:1px solid #eee;vertical-align:top;width:68px;">\<newline>''
     @ ''          ''
     @ rows_img_card p
     @ ''\<newline>''
     @ ''        </td>\<newline>''
     @ ''        <td style="padding:10px 0;border-top:1px solid #eee;vertical-align:top;">\<newline>''
     @ ''          <div style="color:#111;font-weight:600;">\<newline>''
     @ ''            ''
     @ esc (Some (title p))
     @ ''\<newline>''
     @ ''          </div>\<newline>''
     @ ''          ''
     @ rows_price_card p
     @ ''\<newline>''
     @ ''        </td>\<newline>''
     @ ''      </tr>''\<close>
  (is "_ = ?T")
proof -
  have "rows_row_card p = trim (''\<newline>      '' @ ?T @ ''\<newline>    '')"
    by (simp add: rows_row_card_def)
  also have "\<dots> = ?T"
    by (rule trim_markup) (simp_all add: asciiBlank_def)
  finally show ?thesis .
qed



lemma buildHtml_basic_eq:
  \<open>buildHtml_basic collectionTitle products =
     ''<div style="font-family:Arial,sans-serif;font-size:14px;line-height:1.4;">\<newline>''
     @ ''  <p style="margin:0 0 10px 0;"><strong>''
     @ esc_basic collectionTitle
     @ ''</strong> (''
     @ natToString (length products)
     @ '' products)</p>\<newline>''
     @ ''  <ul style="padding-left:18px;margin:0;">\<newline>''
     @ (if items_basic products \<noteq> [] then items_basic products
          else ''    <li>No products found.</li>'')
     @ ''\<newline>''
     @ ''  </ul>\<newline>''
     @ ''</div>''\<close>
  (is "_ = ?T")
proof -
  have "buildHtml_basic collectionTitle products = trim (''\<newline>'' @ ?T @ ''\<newline>'')"
    by (simp add: buildHtml_basic_def)
  also have "\<dots> = ?T"
    by (rule trim_markup) (simp_all add: asciiBlank_def)
  finally show ?thesis .
qed

subsection \<open>Escaping\<close>

lemma replaceAll_Nil: "replaceAll c r [] = []"
  by (simp add: replaceAll_def)

lemma replaceAll_append: "replaceAll c r (a @ b) = replaceAll c r a @ replaceAll c r b"
  by (simp add: replaceAll_def)

lemma replaceAll_Cons: "replaceAll c r (x # s) = (if x = c then r else [x]) @ replaceAll c r s"
  by (simp add: replaceAll_def)

lemma esc_Cons: "esc (Some (c # s)) = escChar c @ esc (Some s)"
  by (simp add: esc_def escChar_def replaceAll_Cons replaceAll_append replaceAll_Nil)

lemma esc_Nil: "esc (Some []) = []"
  by (simp add: esc_def replaceAll_Nil)

lemma esc_None: "esc None = []"
  by (simp add: esc_def replaceAll_Nil)

lemma esc_chars: "esc (Some s) = concat (map escChar s)"
  by (induction s) (simp_all add: esc_Nil esc_Cons)

lemma esc_append: "esc (Some (a @ b)) = esc (Some a) @ esc (Some b)"
  by (simp add: esc_chars)









subsection \<open>The count line and the empty table\<close>

lemma decimalDigits_digit: "0 \<le> n \<Longrightarrow> n < 10 \<Longrightarrow> decimalDigits n = [char_of (48 + n)]"
  by (simp add: decimalDigits.simps)






text \<open>
  The unordered list of \<^verbatim>\<open>update-collection-basic.js\<close> has no such agreement: its count is always
  followed by \<^verbatim>\<open>products\<close>.
\<close>

lemma buildHtml_basic_count:
  \<open>sublist (''('' @ natToString (length products) @ '' products)'')
     (buildHtml_basic collectionTitle products)\<close>
proof -
  have "buildHtml_basic collectionTitle products =
      (''<div style=\"font-family:Arial,sans-serif;font-size:14px;line-height:1.4;\">\<newline>''
       @ ''  <p style=\"margin:0 0 10px 0;\"><strong>'' @ esc_basic collectionTitle @ ''</strong> '')
      @ (''('' @ natToString (length products) @ '' products)'')
      @ (''</p>\<newline>''
         @ ''  <ul style=\"padding-left:18px;margin:0;\">\<newline>''
         @ (if items_basic products \<noteq> [] then items_basic products
            else ''    <li>No products found.</li>'')
         @ ''\<newline>''
         @ ''  </ul>\<newline>''
         @ ''</div>'')"
    by (simp add: buildHtml_basic_eq)
  then show ?thesis
    by (simp only: sublist_appendI)
qed


section \<open>Properties of the week number\<close>

text \<open>
  \<open>YearFromDay\<close> is the year of ECMAScript's \<^verbatim>\<open>YearFromTime\<close>: the last year that starts
  on or before the day.
\<close>

lemma DayFromYear_1970: "DayFromYear 1970 = 0"
  by (simp add: DayFromYear_def)

lemma DayFromYear_upper: "0 \<le> k \<Longrightarrow> DayFromYear (1970 + k) \<le> 366 * k"
proof (induction k rule: int_ge_induct)
  case base
  show ?case by (simp add: DayFromYear_1970)
next
  case (step i)
  have "DayFromYear (1970 + (i + 1)) = DayFromYear (1970 + i) + DaysInYear (1970 + i)"
    using DayFromYear_step [of "1970 + i"] by (simp add: add.assoc)
  with step DaysInYear_cases [of "1970 + i"] show ?case by auto
qed

lemma DayFromYear_lower: "k \<le> 0 \<Longrightarrow> DayFromYear (1970 + k) \<le> 365 * k"
proof (induction k rule: int_le_induct)
  case base
  show ?case by (simp add: DayFromYear_1970)
next
  case (step i)
  have "DayFromYear (1970 + i) = DayFromYear (1970 + (i - 1)) + DaysInYear (1970 + (i - 1))"
    using DayFromYear_step [of "1970 + (i - 1)"] by simp
  with step DaysInYear_cases [of "1970 + (i - 1)"] show ?case by auto
qed

lemma yearSearch_spec:
  "DayFromYear y \<le> d \<Longrightarrow>
   DayFromYear (yearSearch d y) \<le> d \<and> d < DayFromYear (yearSearch d y + 1)"
proof (induction d y rule: yearSearch.induct)
  case (1 d y)
  show ?case
  proof (cases "DayFromYear (y + 1) \<le> d")
    case True
    then have "yearSearch d y = yearSearch d (y + 1)"
      by (subst yearSearch.simps) simp
    with 1 True show ?thesis by simp
  next
    case False
    then have "yearSearch d y = y"
      by (subst yearSearch.simps) simp
    with 1 False show ?thesis by simp
  qed
qed

lemma YearFromDay_spec:
  "DayFromYear (YearFromDay d) \<le> d \<and> d < DayFromYear (YearFromDay d + 1)"
  unfolding YearFromDay_def
proof (rule yearSearch_spec)
  show "DayFromYear (1970 + (if 0 \<le> d then d div 366 else d div 365)) \<le> d"
  proof (cases "0 \<le> d")
    case True
    then have "0 \<le> d div 366" by simp
    then have "DayFromYear (1970 + d div 366) \<le> 366 * (d div 366)"
      by (rule DayFromYear_upper)
    also have "\<dots> \<le> d" by simp
    finally show ?thesis using True by simp
  next
    case False
    then have "d div 365 \<le> 0" by simp
    then have "DayFromYear (1970 + d div 365) \<le> 365 * (d div 365)"
      by (rule DayFromYear_lower)
    also have "\<dots> \<le> d" by simp
    finally show ?thesis using False by simp
  qed
qed

lemma Day_mult: "Day (x * msPerDay) = x"
  by (simp add: Day_def msPerDay_def)

lemma TimeWithinDay_mult: "TimeWithinDay (x * msPerDay) = 0"
  by (simp add: TimeWithinDay_def msPerDay_def)

lemma MonthFromTime_range: "0 \<le> MonthFromTime t \<and> MonthFromTime t \<le> 11"
proof -
  have "length (filter P [1, 2, 3, 4, 5, 6, 7, 8, 9, 10, 11 :: int]) \<le> 11" for P
    using length_filter_le [of P "[1, 2, 3, 4, 5, 6, 7, 8, 9, 10, 11]"] by simp
  then show ?thesis
    unfolding MonthFromTime_def Let_def by simp
qed

lemma MakeDay_date:
  "MakeDay (YearFromTime t) (MonthFromTime t) (DateFromTime t + k) = Day t + k"
proof -
  have "MonthFromTime t div 12 = 0" "MonthFromTime t mod 12 = MonthFromTime t"
    using MonthFromTime_range [of t] by simp_all
  then show ?thesis
    by (simp add: MakeDay_def DateFromTime_def DayWithinYear_def InLeapYear_def)
qed

lemma same_day:
  assumes "Day a = Day b"
  shows "YearFromTime a = YearFromTime b" and "MonthFromTime a = MonthFromTime b"
    and "DateFromTime a = DateFromTime b" and "WeekDay a = WeekDay b"
  using assms
  by (simp_all add: YearFromTime_def MonthFromTime_def DateFromTime_def WeekDay_def
      DayWithinYear_def InLeapYear_def)

lemma Day_range:
  assumes "\<bar>t\<bar> \<le> 8640000000000000"
  shows "- 100000000 \<le> Day t \<and> Day t \<le> 100000000"
proof -
  have "t \<le> 8640000000000000" and "- 8640000000000000 \<le> t"
    using assms by simp_all
  then have "t div 86400000 \<le> 8640000000000000 div 86400000"
    and "(- 8640000000000000) div 86400000 \<le> t div 86400000"
    by (simp_all only: zdiv_mono1 zero_less_numeral)
  then show ?thesis
    by (simp add: Day_def msPerDay_def)
qed

lemma TimeClip_day:
  "- 100000000 \<le> x \<Longrightarrow> x \<le> 100000000 \<Longrightarrow> TimeClip (MakeDate x 0) = Some (x * msPerDay)"
  by (simp add: TimeClip_def MakeDate_def msPerDay_def abs_le_iff)

lemma WeekDay_iso: "(if (D + 4) mod 7 \<noteq> 0 then (D + 4) mod 7 else 7) = isoDayOfWeek D" for D :: int
proof -
  define r where "r = (D + 3) mod 7"
  have r: "0 \<le> r" "r < 7" by (simp_all add: r_def)
  have iso: "isoDayOfWeek D = r + 1"
    by (simp add: isoDayOfWeek_def r_def)
  have eq: "(D + 4) mod 7 = (r + 1) mod 7"
    using mod_add_left_eq [of "D + 3" 7 1] by (simp add: r_def algebra_simps)
  show ?thesis
  proof (cases "r = 6")
    case True
    then show ?thesis by (simp add: eq iso)
  next
    case False
    with r have "(r + 1) mod 7 = r + 1" by simp
    with r show ?thesis by (simp add: eq iso)
  qed
qed

lemma thursday_eq: "D + (4 - isoDayOfWeek D) = 7 * ((D + 3) div 7)" for D :: int
proof -
  have "7 * ((D + 3) div 7) + (D + 3) mod 7 = D + 3"
    by (rule mult_div_mod_eq)
  then have "D + 3 - (D + 3) mod 7 = 7 * ((D + 3) div 7)"
    by (simp only: diff_eq_eq)
  then show ?thesis
    by (simp add: isoDayOfWeek_def)
qed

lemma thursday_range:
  assumes "- 100000000 \<le> D" and "D \<le> 100000000"
  shows "- 100000000 \<le> D + (4 - isoDayOfWeek D) \<and> D + (4 - isoDayOfWeek D) \<le> 100000000"
proof -
  have "D + 3 \<le> 100000003" and "- 99999997 \<le> D + 3"
    using assms by simp_all
  then have "(D + 3) div 7 \<le> 100000003 div 7" and "(- 99999997) div 7 \<le> (D + 3) div 7"
    by (simp_all only: zdiv_mono1 zero_less_numeral)
  then show ?thesis
    by (simp add: thursday_eq)
qed

lemma ceiling_seventh: "\<lceil>(of_int n :: rat) / 7\<rceil> = - ((- n) div 7)"
  using ceiling_divide_eq_div [of n 7, where ?'a = rat] by simp

lemma week_range: "1 \<le> n \<Longrightarrow> n \<le> 366 \<Longrightarrow> 1 \<le> - ((- n) div 7) \<and> - ((- n) div 7) \<le> 53" for n :: int
proof -
  assume "1 \<le> n" and "n \<le> 366"
  then have "- 366 \<le> - n" and "- n \<le> - 1" by simp_all
  then have "(- 366) div 7 \<le> (- n) div 7" and "(- n) div 7 \<le> (- 1) div 7"
    by (simp_all only: zdiv_mono1 zero_less_numeral)
  then show ?thesis by simp
qed


lemma isoWeek_range: "1 \<le> isoWeek d \<and> isoWeek d \<le> 53"
proof -
  define th where "th = d + (4 - isoDayOfWeek d)"
  define Y where "Y = YearFromDay th"
  have "DayFromYear Y \<le> th" and "th < DayFromYear (Y + 1)"
    using YearFromDay_spec [of th] by (simp_all add: Y_def)
  moreover have "DayFromYear (Y + 1) \<le> DayFromYear Y + 366"
    using DayFromYear_step [of Y] DaysInYear_cases [of Y] by auto
  ultimately have "1 \<le> th - DayFromYear Y + 1" and "th - DayFromYear Y + 1 \<le> 366"
    by simp_all
  then have "1 \<le> - ((- (th - DayFromYear Y + 1)) div 7) \<and> - ((- (th - DayFromYear Y + 1)) div 7) \<le> 53"
    by (rule week_range)
  then show ?thesis
    by (simp only: isoWeek_def Let_def ceiling_seventh th_def [symmetric] Y_def [symmetric])
qed

lemma isoWeekNumberUTC_eq:
  assumes valid: "\<bar>t\<bar> \<le> 8640000000000000"
    and y1: "YearFromTime t < 0 \<or> 99 < YearFromTime t"
    and y2: "YearFromDay (Day t + (4 - isoDayOfWeek (Day t))) < 0
             \<or> 99 < YearFromDay (Day t + (4 - isoDayOfWeek (Day t)))"
    and start: "- 100000000 \<le> DayFromYear (YearFromDay (Day t + (4 - isoDayOfWeek (Day t))))"
  shows "isoWeekNumberUTC (Some t) = Some (isoWeek (Day t))"
proof -
  define D where "D = Day t"
  define th where "th = D + (4 - isoDayOfWeek D)"
  define Y where "Y = YearFromDay th"
  define d0 where "d0 = D * msPerDay"
  define d where "d = th * msPerDay"
  have D: "- 100000000 \<le> D" "D \<le> 100000000"
    using Day_range [OF valid] by (simp_all add: D_def)
  have th: "- 100000000 \<le> th" "th \<le> 100000000"
    using thursday_range [OF D] by (simp_all add: th_def)
  have Y: "DayFromYear Y \<le> th"
    using YearFromDay_spec [of th] by (simp add: Y_def)
  have "MakeDay (YearFromTime t) (MonthFromTime t) (DateFromTime t) = D"
    using MakeDay_date [of t 0] by (simp add: D_def)
  with y1 D have s1: "Date_UTC (YearFromTime t) (MonthFromTime t) (DateFromTime t) = Some d0"
    by (auto simp: Date_UTC_def TimeClip_day d0_def)
  have day0: "Day d0 = Day t"
    by (simp add: d0_def Day_mult D_def)
  have "WeekDay d0 = (D + 4) mod 7"
    by (simp add: WeekDay_def d0_def Day_mult)
  then have wd: "(if WeekDay d0 \<noteq> 0 then WeekDay d0 else 7) = isoDayOfWeek D"
    by (simp only: WeekDay_iso)
  have "MakeDay (YearFromTime d0) (MonthFromTime d0) (DateFromTime d0 + (4 - isoDayOfWeek D)) = th"
    using MakeDay_date [of d0 "4 - isoDayOfWeek D"] by (simp add: d0_def Day_mult th_def)
  with th have s2: "setUTCDate d0 (DateFromTime d0 + 4 - isoDayOfWeek D) = Some d"
    by (simp add: setUTCDate_def d0_def TimeWithinDay_mult TimeClip_day d_def add_diff_eq)
  have yd: "YearFromTime d = Y"
    by (simp add: YearFromTime_def d_def Day_mult Y_def)
  have "MakeDay Y 0 1 = DayFromYear Y"
    by (simp add: MakeDay_def monthStart_def)
  moreover have "- 100000000 \<le> DayFromYear Y" "DayFromYear Y \<le> 100000000"
    using start Y th by (simp_all add: Y_def th_def D_def)
  moreover have "Y < 0 \<or> 99 < Y"
    using y2 by (simp add: Y_def th_def D_def)
  ultimately have s3: "Date_UTC Y 0 1 = Some (DayFromYear Y * msPerDay)"
    by (auto simp: Date_UTC_def TimeClip_day)
  have "d - DayFromYear Y * msPerDay = (th - DayFromYear Y) * msPerDay"
    by (simp add: d_def algebra_simps)
  then have s4: "(d - DayFromYear Y * msPerDay) div 86400000 + 1 = th - DayFromYear Y + 1"
    by (simp add: msPerDay_def)
  have "isoWeekNumberUTC (Some t) = Some (- ((- (th - DayFromYear Y + 1)) div 7))"
    by (simp only: isoWeekNumberUTC_def option.case s1 Let_def wd s2 yd s3 s4)
  also have "\<dots> = Some (isoWeek (Day t))"
    by (simp only: isoWeek_def Let_def ceiling_seventh th_def [symmetric] Y_def [symmetric]
        D_def [symmetric])
  finally show ?thesis .
qed

lemmas date_eval = isoWeekNumberUTC_def Date_UTC_def setUTCDate_def TimeClip_def MakeDate_def
  MakeDay_def YearFromTime_def YearFromDay_def MonthFromTime_def DateFromTime_def
  DayWithinYear_def InLeapYear_def WeekDay_def Day_def TimeWithinDay_def msPerDay_def
  DaysInYear_def DayFromYear_def monthStart_def yearSearch.simps Let_def

lemma isoWeek_int:
  "isoWeek d =
     - ((- (d + (4 - isoDayOfWeek d)
            - DayFromYear (YearFromDay (d + (4 - isoDayOfWeek d))) + 1)) div 7)"
  by (simp only: isoWeek_def Let_def ceiling_seventh)

lemmas week_eval = isoWeek_int isoDayOfWeek_def

text \<open>
  C2, as amended: for every valid date such that neither its own UTC year nor the UTC year
  of the Thursday of its week is one of the years 0 to 99, and such that 1 January of that
  Thursday's year is itself a valid date, \<^verbatim>\<open>isoWeekNumberUTC\<close> returns the ISO-8601 week number:
  the date is shifted to the Thursday of its Monday-based week (4 minus the ISO day of the
  week is added) and the result is the ceiling of a seventh of that Thursday's day of the
  year, 1 January being day 1; it lies between 1 and 53. In particular 2024-12-31 and
  2024-01-01 are both mapped to week 1.
\<close>

theorem isoWeekNumberUTC_isoWeek:
  assumes "\<bar>t\<bar> \<le> 8640000000000000"
    and "YearFromTime t < 0 \<or> 99 < YearFromTime t"
    and "YearFromDay (Day t + (4 - isoDayOfWeek (Day t))) < 0
         \<or> 99 < YearFromDay (Day t + (4 - isoDayOfWeek (Day t)))"
    and "- 100000000 \<le> DayFromYear (YearFromDay (Day t + (4 - isoDayOfWeek (Day t))))"
  shows "isoWeekNumberUTC (Some t) = Some (isoWeek (Day t))
         \<and> 1 \<le> isoWeek (Day t) \<and> isoWeek (Day t) \<le> 53
         \<and> isoWeekNumberUTC (Some 1735603200000) = Some 1
         \<and> isoWeekNumberUTC (Some 1704067200000) = Some 1"
proof -
  have "isoWeekNumberUTC (Some 1735603200000) = Some 1"
    by (simp add: date_eval)
  moreover have "isoWeekNumberUTC (Some 1704067200000) = Some 1"
    by (simp add: date_eval)
  ultimately show ?thesis
    using isoWeekNumberUTC_eq [OF assms] isoWeek_range [of "Day t"] by simp
qed

text \<open>
  The theorem at 2024-12-31 (a Tuesday, whose Thursday is 2 January 2025) and at 2024-01-01
  (a Monday).
\<close>

theorem isoWeekNumberUTC_isoWeek_witness:
  "YearFromTime 1735603200000 = 2024
   \<and> YearFromDay (Day 1735603200000 + (4 - isoDayOfWeek (Day 1735603200000))) = 2025
   \<and> isoWeekNumberUTC (Some 1735603200000) = Some (isoWeek (Day 1735603200000))
   \<and> isoWeek (Day 1735603200000) = 1
   \<and> YearFromTime 1704067200000 = 2024
   \<and> isoWeekNumberUTC (Some 1704067200000) = Some (isoWeek (Day 1704067200000))
   \<and> isoWeek (Day 1704067200000) = 1"
proof -
  have a: "YearFromTime 1735603200000 = 2024"
    and b: "YearFromDay (Day 1735603200000 + (4 - isoDayOfWeek (Day 1735603200000))) = 2025"
    and c: "isoWeek (Day 1735603200000) = 1"
    and d: "YearFromTime 1704067200000 = 2024"
    and e: "YearFromDay (Day 1704067200000 + (4 - isoDayOfWeek (Day 1704067200000))) = 2024"
    and f: "isoWeek (Day 1704067200000) = 1"
    by (simp_all add: date_eval week_eval)
  have g: "DayFromYear 2025 = 20089" "DayFromYear 2024 = 19723"
    by (simp_all add: DayFromYear_def)
  show ?thesis
    using isoWeekNumberUTC_isoWeek [of 1735603200000] isoWeekNumberUTC_isoWeek [of 1704067200000]
    by (simp add: a b c d e f g)
qed

text \<open>
  C2, as stated, fails: \<^verbatim>\<open>Date.UTC\<close> reads a year from 0 to 99 as 1900 plus that year. For
  1 January of the year 100, a Friday in ISO week 53, the Thursday lies in the year 99, the
  script takes 1 January 1999 as the start of that year, and the result is negative.
\<close>

theorem isoWeekNumberUTC_year_100:
  "Day (- 59011459200000) = DayFromYear 100
   \<and> isoWeekNumberUTC (Some (- 59011459200000)) = Some (- 99085)
   \<and> isoWeek (Day (- 59011459200000)) = 53"
  by (simp add: date_eval week_eval)

section \<open>Properties of the collection handle\<close>

text \<open>
  C6, as stated, fails: an argument that is the empty string is supplied explicitly, and the
  script takes the computed default instead (here for a clock at the epoch).
\<close>

theorem handle_empty_argument: "handle (Some []) 0 = ''week-2-plants''"
  by (simp add: handle_def nextWeekHandleUTC_def date_eval intToString_def decimalDigits_digit
      char_of_eq_iff)

text \<open>
  C6, as amended: every handle supplied as the first argument that is not the empty string
  is returned as it is, whatever the clock says; the computed default is not used.
\<close>

theorem handle_explicit: "h \<noteq> [] \<Longrightarrow> handle (Some h) now = h"
  by (simp add: handle_def)

theorem handle_explicit_witness:
  "''week-4-plants'' \<noteq> [] \<and> handle (Some ''week-4-plants'') 0 = ''week-4-plants''"
  using handle_explicit [of "''week-4-plants''" 0] by simp

section \<open>Properties of the price formatter\<close>

text \<open>
  White space: every entry of \<open>StrWhiteSpaceChar\<close> is one UTF-8 sequence, so stripping removes
  a sequence of such entries entirely.
\<close>

lemma StrWhiteSpaceChar_length:
  "w \<in> set StrWhiteSpaceChar \<Longrightarrow> w \<noteq> [] \<and> length w = utf8Length (hd w)"
  unfolding StrWhiteSpaceChar_def set_simps insert_iff empty_iff
  by (elim disjE; simp add: utf8Length_def)

lemma stripLeading_empty: "stripLeading ws [] = []"
proof -
  have "List.find (\<lambda>w. w \<noteq> [] \<and> prefix w []) ws = None"
    by (simp add: find_None_iff)
  then show ?thesis by (subst stripLeading.simps) simp
qed

lemma stripLeading_token:
  assumes "w \<in> set StrWhiteSpaceChar"
  shows "stripLeading StrWhiteSpaceChar (w @ s) = stripLeading StrWhiteSpaceChar s"
proof -
  have w: "w \<noteq> []" "length w = utf8Length (hd w)"
    using StrWhiteSpaceChar_length [OF assms] by simp_all
  obtain w' where f: "List.find (\<lambda>x. x \<noteq> [] \<and> prefix x (w @ s)) StrWhiteSpaceChar = Some w'"
    using assms w(1)
    by (cases "List.find (\<lambda>x. x \<noteq> [] \<and> prefix x (w @ s)) StrWhiteSpaceChar")
      (auto simp: find_None_iff)
  then have w': "w' \<in> set StrWhiteSpaceChar" "w' \<noteq> []" "prefix w' (w @ s)"
    by (auto simp: find_Some_iff)
  moreover obtain a as b bs where "w' = a # as" and "w = b # bs"
    using w'(2) w(1) by (auto simp: neq_Nil_conv)
  ultimately have "hd w' = hd w"
    by simp
  then have "length w' = length w"
    using StrWhiteSpaceChar_length [OF w'(1)] w(2) by simp
  with w'(3) have "w' = w"
    by (metis append_eq_append_conv prefix_def)
  with f show ?thesis
    by (subst stripLeading.simps) simp
qed

lemma trimStart_tokens:
  "\<forall>w \<in> set ws. w \<in> set StrWhiteSpaceChar \<Longrightarrow> trimStart (concat ws) = []"
  by (induction ws) (simp_all add: trimStart_def stripLeading_empty stripLeading_token)

lemma trim_tokens: "\<forall>w \<in> set ws. w \<in> set StrWhiteSpaceChar \<Longrightarrow> trim (concat ws) = []"
  by (simp add: trim_def trimStart_tokens trimEnd_def stripLeading_empty)

lemma Number_blank: "\<forall>w \<in> set ws. w \<in> set StrWhiteSpaceChar \<Longrightarrow> Number (concat ws) = Finite 0"
  by (simp add: Number_def StringToNumber_def trim_tokens)

lemma decimalDigits_step:
  "10 \<le> n \<Longrightarrow> decimalDigits n = decimalDigits (n div 10) @ [char_of (48 + n mod 10)]"
  by (subst decimalDigits.simps) simp

lemma decimalDigits_nonempty: "decimalDigits n \<noteq> []"
  by (subst decimalDigits.simps) simp

lemma char_of_48: "char_of (48 :: int) = CHR ''0''"
  by (simp add: char_of_eq_iff)

lemma toFixed_two_decimals:
  assumes "\<bar>x\<bar> < 10 ^ 21"
  shows "toFixed x 2 =
     (if x < 0 then ''-'' else [])
     @ decimalDigits (\<lfloor>\<bar>x\<bar> * 100 + 1 / 2\<rfloor> div 100) @ ''.''
     @ [char_of (48 + \<lfloor>\<bar>x\<bar> * 100 + 1 / 2\<rfloor> div 10 mod 10),
        char_of (48 + \<lfloor>\<bar>x\<bar> * 100 + 1 / 2\<rfloor> mod 10)]"
proof -
  define N where "N = \<lfloor>\<bar>x\<bar> * 100 + 1 / 2\<rfloor>"
  have N: "0 \<le> N" by (simp add: N_def)
  define z where "z = (if length (decimalDigits N) \<le> 2
      then replicate (2 + 1 - length (decimalDigits N)) (CHR ''0'') @ decimalDigits N
      else decimalDigits N)"
  have split: "take (length z - 2) z = decimalDigits (N div 100)
      \<and> drop (length z - 2) z = [char_of (48 + N div 10 mod 10), char_of (48 + N mod 10)]"
  proof -
    consider "N < 10" | "10 \<le> N" "N < 100" | "100 \<le> N" by linarith
    then show ?thesis
    proof cases
      case 1
      with N have "decimalDigits N = [char_of (48 + N)]" by (simp add: decimalDigits_digit)
      with 1 N show ?thesis
        by (simp add: z_def decimalDigits_digit char_of_48 numeral_2_eq_2)
    next
      case 2
      then have "0 \<le> N div 10" "N div 10 < 10" by simp_all
      then have "decimalDigits N = [char_of (48 + N div 10), char_of (48 + N mod 10)]"
        using 2 by (simp add: decimalDigits_step decimalDigits_digit)
      with 2 show ?thesis
        by (simp add: z_def decimalDigits_digit char_of_48)
    next
      case 3
      then have "10 \<le> N" "10 \<le> N div 10" by simp_all
      then have d: "decimalDigits N =
          decimalDigits (N div 100) @ [char_of (48 + N div 10 mod 10), char_of (48 + N mod 10)]"
        by (simp add: decimalDigits_step [of N] decimalDigits_step [of "N div 10"]
            zdiv_zmult2_eq [symmetric])
      have "\<not> length (decimalDigits N) \<le> 2"
        using decimalDigits_nonempty [of "N div 100"] by (simp add: d)
      then show ?thesis
        by (simp add: z_def d)
    qed
  qed
  have "\<not> 10 ^ 21 \<le> \<bar>x\<bar>" using assms by simp
  then have "toFixed x 2 = (if x < 0 then ''-'' else []) @ take (length z - 2) z @ ''.'' @ drop (length z - 2) z"
    by (simp add: toFixed_def Let_def N_def [symmetric] z_def [symmetric])
  then show ?thesis
    by (simp add: split N_def [symmetric])
qed

lemma toFixed_zero: "toFixed 0 2 = ''0.00''"
proof -
  have "\<lfloor>(1 / 2 :: rat)\<rfloor> = 0"
    by (rule floor_unique) simp_all
  then show ?thesis
    using toFixed_two_decimals [of 0] by (simp add: decimalDigits_digit char_of_48)
qed


lemma currencySymbol_table:
  "currencySymbol ''USD'' = ''$'' \<and> currencySymbol ''HUF'' = ''Ft''
   \<and> currencySymbol ''CAD'' = ''$'' \<and> currencySymbol ''AUD'' = ''$''"
  by (simp add: currencySymbol_def symbols_def)


lemma formatMoney_finite:
  "Number amountStr = Finite n \<Longrightarrow> formatMoney amountStr c = currencySymbol c @ toFixed n 2"
  by (simp add: formatMoney_def)



text \<open>From the answer of the product query to the row of a product in the HTML.\<close>

lemma mapE_nth:
  "mapE f xs = Inr ys \<Longrightarrow> length ys = length xs \<and> (\<forall>i < length xs. f (xs ! i) = Inr (ys ! i))"
proof (induction xs arbitrary: ys)
  case Nil
  then show ?case by simp
next
  case (Cons x xs)
  from Cons.prems obtain y ys' where y: "f x = Inr y" "mapE f xs = Inr ys'" "ys = y # ys'"
    by (auto split: sum.splits)
  with Cons.IH [OF y(2)] show ?case
    by (auto simp: nth_Cons split: nat.splits)
qed

lemma mapE_total: "\<forall>x \<in> set xs. \<exists>y. f x = Inr y \<Longrightarrow> \<exists>ys. mapE f xs = Inr ys"
  by (induction xs) auto

lemma toProduct_price:
  "priceRangeV2 nd = Some r \<Longrightarrow> minVariantPrice r = Some m \<Longrightarrow> toProduct shop (Some nd) = Inr pr
   \<Longrightarrow> price pr = formatMoney (amount m) (currencyCode m)"
  by (auto simp: toProduct_def Let_def)

lemma toProduct_some: "e \<noteq> None \<Longrightarrow> \<exists>pr. toProduct shop e = Inr pr"
  by (cases e) (simp_all add: toProduct_def Let_def)

lemma sublist_after: "sublist xs ys \<Longrightarrow> sublist xs (ps @ ys)"
  using sublist_order.order.trans sublist_append_leftI by blast

lemma sublist_before: "sublist xs ys \<Longrightarrow> sublist xs (ys @ ss)"
  using sublist_order.order.trans sublist_append_rightI by blast

lemma join_nth_sublist: "i < length xs \<Longrightarrow> sublist (xs ! i) (join sep xs)"
proof (induction sep xs arbitrary: i rule: join.induct)
  case (1 sep)
  then show ?case by simp
next
  case (2 sep x)
  then show ?case by simp
next
  case (3 sep x y ys)
  show ?case
  proof (cases i)
    case 0
    then show ?thesis by (simp add: sublist_append_rightI)
  next
    case (Suc j)
    with 3 have "sublist ((y # ys) ! j) (join sep (y # ys))" by simp
    then have "sublist ((y # ys) ! j) (x @ sep @ join sep (y # ys))"
      by (intro sublist_after)
    with Suc show ?thesis by simp
  qed
qed

lemma rows_nth_sublist: "i < length ps \<Longrightarrow> sublist (rows_row (ps ! i) i) (rows ps)"
  using join_nth_sublist [of i "map (\<lambda>(p, index). rows_row p index) (zip ps [0..<length ps])" "''\<newline>''"]
  by (simp add: rows_def)

lemma buildHtml_row_sublist:
  assumes "i < length ps"
  shows "sublist (rows_row (ps ! i) i) (buildHtml t ps link)"
proof -
  have ne: "length ps \<noteq> 0" using assms by auto
  have r: "sublist (rows_row (ps ! i) i) (rows ps @ post)" for post
    by (intro sublist_before rows_nth_sublist [OF assms])
  show ?thesis
    unfolding buildHtml_eq if_P [OF ne]
    by (intro r sublist_after)
qed

text \<open>The other formatter prints the code, a space and the same \<^verbatim>\<open>0.00\<close>.\<close>

lemma formatMoney_card_blank:
  "\<forall>w \<in> set ws. w \<in> set StrWhiteSpaceChar \<Longrightarrow> formatMoney_card (concat ws) code = code @ '' 0.00''"
  by (simp add: formatMoney_card_def Number_blank toFixed_zero)

text \<open>
  C10. Let the answer to the product query hold a list of edges, each with its node, and let
  the amount of the minimum variant price of the product at position \<open>i\<close> be empty or consist
  of white space only (any sequence of the white space characters of ECMAScript). \<^verbatim>\<open>Number\<close>
  reads such an amount as 0, so the formatter returns the currency symbol (or code) followed
  by \<^verbatim>\<open>0.00\<close>, \<^verbatim>\<open>$0.00\<close> for USD; \<^verbatim>\<open>getProductsInCollection\<close> returns the products, the one at
  position \<open>i\<close> with that price; the row the renderer builds for it holds the price line with
  that price instead of leaving the line out; and the row is part of the HTML that
  \<^verbatim>\<open>buildHtml\<close> returns for these products.
\<close>

theorem blank_amount_zero_price_line:
  assumes "\<forall>w \<in> set ws. w \<in> set StrWhiteSpaceChar"
    and "gql remote shop token productsQ (ProductsVars first (''collection_id:'' @ numericId)) calls
           = (Inr (Some (Products (Some c))), calls')"
    and "edges c = Some es"
    and "\<forall>e \<in> set es. e \<noteq> None"
    and "i < length es"
    and "es ! i = Some nd"
    and "priceRangeV2 nd = Some r"
    and "minVariantPrice r = Some m"
    and "amount m = concat ws"
  shows \<open>formatMoney (amount m) (currencyCode m) = currencySymbol (currencyCode m) @ ''0.00''
     \<and> formatMoney (concat ws) ''USD'' = ''$0.00''
     \<and> (\<exists>ps. getProductsInCollection remote shop token numericId first calls = (Inr ps, calls')
           \<and> length ps = length es
           \<and> toProduct shop (Some nd) = Inr (ps ! i)
           \<and> price (ps ! i) = currencySymbol (currencyCode m) @ ''0.00''
           \<and> rows_row (ps ! i) i =
               ''<tr style="background:''
               @ rows_bgColor i
               @ '';">\<newline>''
               @ ''        <td style="padding:12px 10px;vertical-align:top;width:84px;">\<newline>''
               @ ''          ''
               @ rows_img (ps ! i)
               @ ''\<newline>''
               @ ''        </td>\<newline>''
               @ ''        <td style="padding:12px 10px;vertical-align:top;">\<newline>''
               @ ''          <div style="color:#222829;font-weight:600;">\<newline>''
               @ ''            ''
               @ esc (Some (title (ps ! i)))
               @ ''\<newline>''
               @ ''          </div>\<newline>''
               @ ''          ''
               @ (''<div style="margin-top:4px;color:#222829;font-size:13px;">''
                  @ esc (Some (currencySymbol (currencyCode m) @ ''0.00''))
                  @ ''</div>'')
               @ ''\<newline>''
               @ ''        </td>\<newline>''
               @ ''      </tr>''
           \<and> sublist (rows_row (ps ! i) i) (buildHtml collectionTitle ps collectionLink))\<close>
proof -
  have f: "formatMoney (concat ws) code = currencySymbol code @ ''0.00''" for code
    using Number_blank [OF assms(1)] by (simp add: formatMoney_finite toFixed_zero)
  have "\<forall>e \<in> set es. \<exists>pr. toProduct shop e = Inr pr"
    using assms(4) toProduct_some by blast
  then obtain ps where ps: "mapE (toProduct shop) es = Inr ps"
    using mapE_total by blast
  have g: "getProductsInCollection remote shop token numericId first calls = (Inr ps, calls')"
    using assms(2) by (simp add: getProductsInCollection_def bindIO_def assms(3) ps returnIO_def)
  have l: "length ps = length es" and t: "toProduct shop (Some nd) = Inr (ps ! i)"
    using mapE_nth [OF ps] assms(5,6) by auto
  have p: "price (ps ! i) = currencySymbol (currencyCode m) @ ''0.00''"
    using toProduct_price [OF assms(7,8) t] f by (simp add: assms(9))
  have r: \<open>rows_price (ps ! i) =
      ''<div style="margin-top:4px;color:#222829;font-size:13px;">''
      @ esc (Some (currencySymbol (currencyCode m) @ ''0.00'')) @ ''</div>''\<close>
    by (simp add: rows_price_def p)
  have s: "sublist (rows_row (ps ! i) i) (buildHtml collectionTitle ps collectionLink)"
    using buildHtml_row_sublist assms(5) l by simp
  show ?thesis
    apply (intro conjI exI [of _ ps])
           apply (simp add: f assms(9))
          apply (simp add: f currencySymbol_table)
         apply (rule g)
        apply (rule l)
       apply (rule t)
      apply (rule p)
     apply (simp only: rows_row_eq r)
    apply (rule s)
    done
qed

text \<open>
  The theorem at an answer with one product, whose amount is a single space in USD: the HTML holds
  the price line \<^verbatim>\<open>$0.00\<close>.
\<close>

theorem blank_amount_zero_price_line_witness:
  \<open>\<exists>ps. getProductsInCollection
          (\<lambda>q. \<lparr>status = 200, responseText = ''{...}'',
                 json = JsonObject
                   \<lparr>errors = None,
                    data = Some (Products (Some \<lparr>edges = Some
                      [Some \<lparr>node_title = Some ''Fern'', node_handle = Value ''fern'',
                              onlineStoreUrl = None, featuredImage = None,
                              priceRangeV2 = Some \<lparr>minVariantPrice =
                                Some \<lparr>amount = '' '', currencyCode = ''USD''\<rparr>\<rparr>\<rparr>]\<rparr>))\<rparr>\<rparr>)
          ''s'' ''t'' ''7'' 50 []
        = (Inr ps,
           [\<lparr>endpoint = API ''s'', accessToken = ''t'', query = productsQ,
             variables = ProductsVars 50 ''collection_id:7''\<rparr>])
      \<and> price (ps ! 0) = ''$0.00''
      \<and> sublist ''<div style="margin-top:4px;color:#222829;font-size:13px;">$0.00</div>''
           (buildHtml (Some ''Week 2'') ps ''L'')\<close>
  (is "\<exists>ps. getProductsInCollection ?R _ _ _ _ _ = _ \<and> _")
proof -
  let ?m = "\<lparr>amount = '' '', currencyCode = ''USD''\<rparr>"
  let ?nd = "\<lparr>node_title = Some ''Fern'', node_handle = Value ''fern'', onlineStoreUrl = None,
               featuredImage = None, priceRangeV2 = Some \<lparr>minVariantPrice = Some ?m\<rparr>\<rparr>"
  let ?q = "\<lparr>endpoint = API ''s'', accessToken = ''t'', query = productsQ,
              variables = ProductsVars 50 ''collection_id:7''\<rparr>"
  have 1: "\<forall>w \<in> set [[CHR '' '']]. w \<in> set StrWhiteSpaceChar"
    by (simp add: StrWhiteSpaceChar_def)
  have 2: "gql ?R ''s'' ''t'' productsQ (ProductsVars 50 (''collection_id:'' @ ''7'')) []
             = (Inr (Some (Products (Some \<lparr>edges = Some [Some ?nd]\<rparr>))), [?q])"
    by (simp add: gql_def Let_def ok_def)
  have 3: "edges \<lparr>edges = Some [Some ?nd]\<rparr> = Some [Some ?nd]"
    and 4: "\<forall>e \<in> set [Some ?nd]. e \<noteq> None"
    and 5: "0 < length [Some ?nd]"
    and 6: "[Some ?nd] ! 0 = Some ?nd"
    and 7: "priceRangeV2 ?nd = Some \<lparr>minVariantPrice = Some ?m\<rparr>"
    and 8: "minVariantPrice \<lparr>minVariantPrice = Some ?m\<rparr> = Some ?m"
    and 9: "amount ?m = concat [[CHR '' '']]"
    by simp_all
  have e: "esc (Some (currencySymbol ''USD'' @ ''0.00'')) = ''$0.00''"
    by (simp add: currencySymbol_def symbols_def esc_Cons esc_Nil escChar_def)
  have l: \<open>''<div style="margin-top:4px;color:#222829;font-size:13px;">''
             @ esc (Some (currencySymbol (currencyCode ?m) @ ''0.00'')) @ ''</div>''
           = ''<div style="margin-top:4px;color:#222829;font-size:13px;">$0.00</div>''\<close>
    by (simp add: e)
  note t = blank_amount_zero_price_line [OF 1 2 3 4 5 6 7 8 9,
      where collectionTitle = "Some ''Week 2''" and collectionLink = "''L''"]
  from t [THEN conjunct2, THEN conjunct2] show ?thesis
  proof (elim exE conjE, goal_cases)
    case (1 ps)
    have \<open>sublist (''<div style="margin-top:4px;color:#222829;font-size:13px;">''
             @ esc (Some (currencySymbol (currencyCode ?m) @ ''0.00'')) @ ''</div>'')
           (rows_row (ps ! 0) 0)\<close>
      unfolding 1(5) by (intro sublist_append_rightI sublist_after)
    then have \<open>sublist (''<div style="margin-top:4px;color:#222829;font-size:13px;">''
             @ esc (Some (currencySymbol (currencyCode ?m) @ ''0.00'')) @ ''</div>'')
           (buildHtml (Some ''Week 2'') ps ''L'')\<close>
      using 1(6) by (rule sublist_order.order.trans)
    then have s: \<open>sublist ''<div style="margin-top:4px;color:#222829;font-size:13px;">$0.00</div>''
           (buildHtml (Some ''Week 2'') ps ''L'')\<close>
      unfolding l .
    have p: "price (ps ! 0) = ''$0.00''"
      using 1(4) by (simp add: currencySymbol_def symbols_def)
    have g: "getProductsInCollection ?R ''s'' ''t'' ''7'' 50 [] = (Inr ps, [?q])"
      using 1(1) by simp
    from g p s show ?case
      by (intro exI [of _ ps] conjI)
  qed
qed





section \<open>Properties of the API client and the run\<close>

subsection \<open>The outcome of a call\<close>

lemma gql_http_error:
  "\<not> ok (remote \<lparr>endpoint = API shop, accessToken = token, query = q, variables = v\<rparr>) \<Longrightarrow>
   gql remote shop token q v calls =
     (Inl (Error (''HTTP ''
        @ natToString (status (remote \<lparr>endpoint = API shop, accessToken = token, query = q, variables = v\<rparr>))
        @ '': ''
        @ responseText (remote \<lparr>endpoint = API shop, accessToken = token, query = q, variables = v\<rparr>))),
      calls @ [\<lparr>endpoint = API shop, accessToken = token, query = q, variables = v\<rparr>])"
  by (simp add: gql_def Let_def)

lemma gql_errors:
  "ok (remote \<lparr>endpoint = API shop, accessToken = token, query = q, variables = v\<rparr>) \<Longrightarrow>
   json (remote \<lparr>endpoint = API shop, accessToken = token, query = q, variables = v\<rparr>) = JsonObject b \<Longrightarrow>
   errors b = Some (e # es) \<Longrightarrow>
   gql remote shop token q v calls =
     (Inl (Error (''GraphQL errors: '' @ stringifyArray (e # es))),
      calls @ [\<lparr>endpoint = API shop, accessToken = token, query = q, variables = v\<rparr>])"
  by (simp add: gql_def Let_def)

lemma gql_data:
  "ok (remote \<lparr>endpoint = API shop, accessToken = token, query = q, variables = v\<rparr>) \<Longrightarrow>
   json (remote \<lparr>endpoint = API shop, accessToken = token, query = q, variables = v\<rparr>) = JsonObject b \<Longrightarrow>
   errors b = None \<or> errors b = Some [] \<Longrightarrow>
   gql remote shop token q v calls =
     (Inr (data b), calls @ [\<lparr>endpoint = API shop, accessToken = token, query = q, variables = v\<rparr>])"
  by (auto simp: gql_def Let_def)

text \<open>
  C7, as amended. A call whose status is not 2xx fails with an error made of the status code
  and the raw body of the response. A call whose status is 2xx and whose body parses as an
  object with a non-empty \<^verbatim>\<open>errors\<close> array fails with an error made of that array as
  \<^verbatim>\<open>JSON.stringify\<close> prints it. A call whose status is 2xx and whose body parses as an object
  with no \<^verbatim>\<open>errors\<close>, or an empty array of them, returns the \<^verbatim>\<open>data\<close> of the body. In each
  case the call is recorded.
\<close>

theorem gql_outcome:
  "(let req = \<lparr>endpoint = API shop, accessToken = token, query = q, variables = v\<rparr>;
        res = remote req
    in (\<not> ok res \<longrightarrow>
          gql remote shop token q v calls =
            (Inl (Error (''HTTP '' @ natToString (status res) @ '': '' @ responseText res)),
             calls @ [req]))
       \<and> (ok res \<and> json res = JsonObject b \<and> errors b = Some (e # es) \<longrightarrow>
          gql remote shop token q v calls =
            (Inl (Error (''GraphQL errors: '' @ stringifyArray (e # es))), calls @ [req]))
       \<and> (ok res \<and> json res = JsonObject b \<and> (errors b = None \<or> errors b = Some []) \<longrightarrow>
          gql remote shop token q v calls = (Inr (data b), calls @ [req])))"
  unfolding Let_def
  using gql_http_error [of remote shop token q v calls]
    gql_errors [of remote shop token q v b e es calls]
    gql_data [of remote shop token q v b calls]
  by blast

theorem gql_outcome_witness:
  "gql (\<lambda>r. \<lparr>status = 502, responseText = ''Bad Gateway'', json = NotJson\<rparr>) ''s'' ''t'' shopQ NoVars []
     = (Inl (Error ''HTTP 502: Bad Gateway''),
        [\<lparr>endpoint = API ''s'', accessToken = ''t'', query = shopQ, variables = NoVars\<rparr>])
   \<and> gql (\<lambda>r. \<lparr>status = 200, responseText = ''{...}'',
               json = JsonObject \<lparr>errors = Some [''{}''], data = None\<rparr>\<rparr>) ''s'' ''t'' shopQ NoVars []
     = (Inl (Error ''GraphQL errors: [{}]''),
        [\<lparr>endpoint = API ''s'', accessToken = ''t'', query = shopQ, variables = NoVars\<rparr>])
   \<and> gql (\<lambda>r. \<lparr>status = 200, responseText = ''{...}'',
               json = JsonObject \<lparr>errors = None, data = Some (Shop None)\<rparr>\<rparr>) ''s'' ''t'' shopQ NoVars []
     = (Inr (Some (Shop None)),
        [\<lparr>endpoint = API ''s'', accessToken = ''t'', query = shopQ, variables = NoVars\<rparr>])"
proof -
  have n: "natToString 502 = ''502''"
    by (simp add: natToString_def decimalDigits.simps char_of_eq_iff)
  from gql_outcome [where remote = "\<lambda>r. \<lparr>status = 502, responseText = ''Bad Gateway'', json = NotJson\<rparr>"
      and shop = "''s''" and token = "''t''" and q = shopQ and v = NoVars and calls = "[]"]
    gql_outcome [where remote = "\<lambda>r. \<lparr>status = 200, responseText = ''{...}'',
               json = JsonObject \<lparr>errors = Some [''{}''], data = None\<rparr>\<rparr>"
      and shop = "''s''" and token = "''t''" and q = shopQ and v = NoVars and calls = "[]"
      and b = "\<lparr>errors = Some [''{}''], data = None\<rparr>" and e = "''{}''" and es = "[]"]
    gql_outcome [where remote = "\<lambda>r. \<lparr>status = 200, responseText = ''{...}'',
               json = JsonObject \<lparr>errors = None, data = Some (Shop None)\<rparr>\<rparr>"
      and shop = "''s''" and token = "''t''" and q = shopQ and v = NoVars and calls = "[]"
      and b = "\<lparr>errors = None, data = Some (Shop None)\<rparr>"]
  show ?thesis
    by (simp add: Let_def ok_def n stringifyArray_def)
qed

text \<open>
  C7 as stated, refuted: the three cases of the claim do not cover every response. A response
  with status 200 whose body is not JSON has a 2xx status and no \<^verbatim>\<open>errors\<close> array, yet the call
  does not return a \<^verbatim>\<open>data\<close> payload: \<^verbatim>\<open>JSON.parse\<close> throws a \<^verbatim>\<open>SyntaxError\<close>.
\<close>

theorem gql_not_json:
  "gql (\<lambda>r. \<lparr>status = 200, responseText = ''<html></html>'', json = NotJson\<rparr>) ''s'' ''t'' shopQ NoVars []
     = (Inl SyntaxError,
        [\<lparr>endpoint = API ''s'', accessToken = ''t'', query = shopQ, variables = NoVars\<rparr>])"
  by (simp add: gql_def Let_def ok_def)

subsection \<open>A collection that is not found\<close>

lemma gql_calls:
  "snd (gql remote shop token q v calls) =
     calls @ [\<lparr>endpoint = API shop, accessToken = token, query = q, variables = v\<rparr>]"
  by (simp add: gql_def Let_def)

lemma collectionQ_not_metafieldsSetM: "collectionQ \<noteq> metafieldsSetM"
  by (simp add: collectionQ_def metafieldsSetM_def)

text \<open>
  C8. When the collection lookup returns data that hold no collection, the run fails with the
  error \<^verbatim>\<open>Collection not found: <handle>\<close>; the lookup is the only call the run has made, and
  the \<^verbatim>\<open>metafieldsSet\<close> mutation is not among the calls.
\<close>

theorem main_collection_not_found:
  assumes "gql remote shop token collectionQ (HandleVars h) [] = (Inr d, calls)"
    and "\<forall>c. d \<noteq> Some (CollectionByHandle (Some c))"
  shows "main remote shop token h [] = (Inl (Error (''Collection not found: '' @ h)), calls)
    \<and> calls = [\<lparr>endpoint = API shop, accessToken = token, query = collectionQ,
                 variables = HandleVars h\<rparr>]
    \<and> metafieldsSetM \<notin> query ` set (snd (main remote shop token h []))"
proof -
  have c: "(case d of Some (CollectionByHandle c) \<Rightarrow> c | _ \<Rightarrow> None) = None"
    using assms(2) by (auto split: option.splits payload.splits)
  have m: "main remote shop token h [] = (Inl (Error (''Collection not found: '' @ h)), calls)"
    by (simp add: main_def getCollectionNumericId_def bindIO_def throwIO_def assms(1) c)
  have l: "calls = [\<lparr>endpoint = API shop, accessToken = token, query = collectionQ,
                      variables = HandleVars h\<rparr>]"
    using gql_calls [of remote shop token collectionQ "HandleVars h" "[]"] assms(1) by simp
  show ?thesis
    using m l collectionQ_not_metafieldsSetM by simp
qed

theorem main_collection_not_found_witness:
  "main (\<lambda>r. \<lparr>status = 200, responseText = ''{...}'',
              json = JsonObject \<lparr>errors = None, data = Some (CollectionByHandle None)\<rparr>\<rparr>)
     ''s'' ''t'' ''week-2-plants'' []
   = (Inl (Error ''Collection not found: week-2-plants''),
      [\<lparr>endpoint = API ''s'', accessToken = ''t'', query = collectionQ,
        variables = HandleVars ''week-2-plants''\<rparr>])"
  using main_collection_not_found [where remote = "\<lambda>r. \<lparr>status = 200, responseText = ''{...}'',
              json = JsonObject \<lparr>errors = None, data = Some (CollectionByHandle None)\<rparr>\<rparr>"
      and shop = "''s''" and token = "''t''" and h = "''week-2-plants''"
      and d = "Some (CollectionByHandle None)"
      and calls = "[\<lparr>endpoint = API ''s'', accessToken = ''t'', query = collectionQ,
        variables = HandleVars ''week-2-plants''\<rparr>]"]
  by (simp add: gql_def Let_def ok_def)

lemma script_failure:
  assumes "main remote shop token (handle argv2 now) [] = (Inl e, calls)"
    and "shop \<noteq> []" and "token \<noteq> []"
  shows "script (Some shop) (Some token) argv2 now remote = (Inl e, calls, 1)"
  using assms by (simp add: script_def)

subsection \<open>The user errors of the write\<close>

lemma writeShopMetafield_write:
  assumes "gql remote shop token shopQ NoVars c2 = (Inr (Some (Shop (Some sh))), c3)"
    and "gql remote shop token metafieldsSetM
           (MetafieldsVars
              [\<lparr>mf_ownerId = shop_id sh, mf_namespace = ''email'', mf_key = ''collection_html_1'',
                mf_type = ''multi_line_text_field'', mf_value = html\<rparr>]) c3
         = (Inr d, c4)"
  shows "writeShopMetafield remote shop token html c2 =
     (let errs = (case d of
                    Some (MetafieldsSet (Some m)) \<Rightarrow> (case userErrors m of Some es \<Rightarrow> es | None \<Rightarrow> [])
                  | _ \<Rightarrow> [])
      in if errs \<noteq> []
         then (Inl (Error (''metafieldsSet userErrors: ''
                            @ stringifyArray (map stringifyUserError errs))), c4)
         else (Inr (), c4))"
  by (simp add: writeShopMetafield_def bindIO_def assms throwIO_def returnIO_def Let_def)

lemma main_write:
  assumes "getCollectionNumericId remote shop token h [] = (Inr (collectionTitle, numericId), c1)"
    and "getProductsInCollection remote shop token numericId 50 c1 = (Inr products, c2)"
  shows "main remote shop token h [] =
     (case writeShopMetafield remote shop token
             (buildHtml collectionTitle products (collectionUrlFromHandle shop h)) c2 of
        (Inl e, c) \<Rightarrow> (Inl e, c)
      | (Inr u, c) \<Rightarrow> (Inr (buildHtml collectionTitle products (collectionUrlFromHandle shop h)), c))"
  by (simp add: main_def bindIO_def assms returnIO_def Let_def split: prod.splits sum.splits)

text \<open>
  C9. Let the run reach the write: the collection lookup, the product query and the shop query
  succeed. Let the answer to the \<^verbatim>\<open>metafieldsSet\<close> mutation have a 2xx status, no GraphQL
  errors and a \<^verbatim>\<open>metafieldsSet\<close> payload. If its \<^verbatim>\<open>userErrors\<close> list is non-empty, the run
  fails with an error made of the list of \<^verbatim>\<open>{field, message}\<close> objects as \<^verbatim>\<open>JSON.stringify\<close>
  prints it; the run succeeds, returning the HTML written, exactly when \<^verbatim>\<open>userErrors\<close> is
  absent or empty; and it fails exactly when \<^verbatim>\<open>userErrors\<close> is non-empty.
\<close>

theorem main_userErrors:
  assumes "getCollectionNumericId remote shop token h [] = (Inr (collectionTitle, numericId), c1)"
    and "getProductsInCollection remote shop token numericId 50 c1 = (Inr products, c2)"
    and "gql remote shop token shopQ NoVars c2 = (Inr (Some (Shop (Some sh))), c3)"
    and "html = buildHtml collectionTitle products (collectionUrlFromHandle shop h)"
    and "mutation = \<lparr>endpoint = API shop, accessToken = token, query = metafieldsSetM,
           variables = MetafieldsVars
              [\<lparr>mf_ownerId = shop_id sh, mf_namespace = ''email'', mf_key = ''collection_html_1'',
                mf_type = ''multi_line_text_field'', mf_value = html\<rparr>]\<rparr>"
    and "ok (remote mutation)"
    and "json (remote mutation) = JsonObject b"
    and "errors b = None \<or> errors b = Some []"
    and "data b = Some (MetafieldsSet (Some m))"
  shows "(\<forall>e es. userErrors m = Some (e # es) \<longrightarrow>
            main remote shop token h [] =
              (Inl (Error (''metafieldsSet userErrors: ''
                            @ stringifyArray (map stringifyUserError (e # es)))),
               c3 @ [mutation]))
    \<and> (main remote shop token h [] = (Inr html, c3 @ [mutation])
         \<longleftrightarrow> userErrors m = None \<or> userErrors m = Some [])
    \<and> ((\<exists>e c. main remote shop token h [] = (Inl e, c))
         \<longleftrightarrow> (\<exists>e es. userErrors m = Some (e # es)))"
proof -
  have g: "gql remote shop token metafieldsSetM
           (MetafieldsVars
              [\<lparr>mf_ownerId = shop_id sh, mf_namespace = ''email'', mf_key = ''collection_html_1'',
                mf_type = ''multi_line_text_field'', mf_value = html\<rparr>]) c3
         = (Inr (Some (MetafieldsSet (Some m))), c3 @ [mutation])"
    using assms(5-9) by (auto simp: gql_def Let_def)
  note w = writeShopMetafield_write [OF assms(3) g]
  note r = main_write [OF assms(1,2), folded assms(4)]
  show ?thesis
  proof (cases "userErrors m")
    case None
    then show ?thesis by (simp add: r w)
  next
    case (Some es)
    then show ?thesis by (cases es) (simp_all add: r w)
  qed
qed


theorem main_userErrors_witness:
  \<open>fst (main
     (\<lambda>r. \<lparr>status = 200, responseText = ''{...}'',
            json = JsonObject
              \<lparr>errors = None,
               data = Some
                 (if query r = collectionQ
                  then CollectionByHandle
                         (Some \<lparr>collection_id = ''gid://shopify/Collection/7'',
                                collection_title = Some ''Week 2''\<rparr>)
                  else if query r = productsQ then Products (Some \<lparr>edges = Some []\<rparr>)
                  else if query r = shopQ then Shop (Some \<lparr>shop_id = Some ''gid://shopify/Shop/1''\<rparr>)
                  else MetafieldsSet
                         (Some \<lparr>userErrors =
                            Some [\<lparr>field = Some [''metafields'', ''0'', ''value''],
                                   message = ''is too long''\<rparr>]\<rparr>))\<rparr>\<rparr>)
     ''s'' ''t'' ''week-2-plants'' [])
   = Inl (Error ''metafieldsSet userErrors: [{"field":["metafields","0","value"],"message":"is too long"}]'')\<close>
  (is "fst (main ?R _ _ _ _) = _")
proof -
  let ?q1 = "\<lparr>endpoint = API ''s'', accessToken = ''t'', query = collectionQ,
               variables = HandleVars ''week-2-plants''\<rparr>"
  let ?q2 = "\<lparr>endpoint = API ''s'', accessToken = ''t'', query = productsQ,
               variables = ProductsVars 50 ''collection_id:7''\<rparr>"
  let ?q3 = "\<lparr>endpoint = API ''s'', accessToken = ''t'', query = shopQ, variables = NoVars\<rparr>"
  let ?e = "\<lparr>field = Some [''metafields'', ''0'', ''value''], message = ''is too long''\<rparr>"
  have q: "productsQ \<noteq> collectionQ" "shopQ \<noteq> collectionQ" "shopQ \<noteq> productsQ"
    "metafieldsSetM \<noteq> collectionQ" "metafieldsSetM \<noteq> productsQ" "metafieldsSetM \<noteq> shopQ"
    by (simp_all add: collectionQ_def productsQ_def shopQ_def metafieldsSetM_def)
  have 1: "getCollectionNumericId ?R ''s'' ''t'' ''week-2-plants'' []
             = (Inr (Some ''Week 2'', ''7''), [?q1])"
    by (simp add: getCollectionNumericId_def gql_def bindIO_def returnIO_def Let_def ok_def
        lastSegment_def)
  have 2: "getProductsInCollection ?R ''s'' ''t'' ''7'' 50 [?q1] = (Inr [], [?q1, ?q2])"
    by (simp add: getProductsInCollection_def gql_def bindIO_def returnIO_def Let_def ok_def q)
  have 3: "gql ?R ''s'' ''t'' shopQ NoVars [?q1, ?q2]
             = (Inr (Some (Shop (Some \<lparr>shop_id = Some ''gid://shopify/Shop/1''\<rparr>))), [?q1, ?q2, ?q3])"
    by (simp add: gql_def Let_def ok_def q)
  have s: \<open>stringifyArray [stringifyUserError ?e]
             = ''[{"field":["metafields","0","value"],"message":"is too long"}]''\<close>
    by (simp add: stringifyArray_def stringifyUserError_def QuoteJSONString_def)
  from main_userErrors [OF 1 2 3 refl refl, where b = "\<lparr>errors = None, data = Some (MetafieldsSet
          (Some \<lparr>userErrors = Some [?e]\<rparr>))\<rparr>" and m = "\<lparr>userErrors = Some [?e]\<rparr>"]
  show ?thesis
    by (simp add: ok_def q s)
qed

end
